theory Spec2Isabelle
  imports Complex_Main "HOL-Library.AList"
begin

section \<open>Vehicle collision detection: scorer, alert aggregator and tracker\<close>

text \<open>
  A shallow embedding of \<^verbatim>\<open>collision_detector.py\<close>, \<^verbatim>\<open>alert_system.py\<close> and
  \<^verbatim>\<open>vehicle_tracker.py\<close>, with the constants of \<^verbatim>\<open>config.py\<close>.
  Python floats are read as real numbers: rounding is left out, comparisons, thresholds
  and control flow are kept as written. \<^verbatim>\<open>float('inf')\<close> is a value of its own.
\<close>

subsection \<open>config.py\<close>

definition CRITICAL_DISTANCE :: real where "CRITICAL_DISTANCE = 5"
definition HIGH_DISTANCE :: real where "HIGH_DISTANCE = 10"
definition MEDIUM_DISTANCE :: real where "MEDIUM_DISTANCE = 20"
definition LOW_DISTANCE :: real where "LOW_DISTANCE = 30"

definition CRITICAL_SPEED :: real where "CRITICAL_SPEED = 20"
definition HIGH_SPEED :: real where "HIGH_SPEED = 15"
definition MEDIUM_SPEED :: real where "MEDIUM_SPEED = 10"
definition LOW_SPEED :: real where "LOW_SPEED = 5"

definition CRITICAL_ANGLE :: real where "CRITICAL_ANGLE = 15"
definition HIGH_ANGLE :: real where "HIGH_ANGLE = 30"
definition MEDIUM_ANGLE :: real where "MEDIUM_ANGLE = 45"
definition LOW_ANGLE :: real where "LOW_ANGLE = 60"

definition SPEED_THRESHOLD :: real where "SPEED_THRESHOLD = 5"

definition FOCAL_LENGTH :: real where "FOCAL_LENGTH = 700"
definition REAL_VEHICLE_WIDTH :: real where "REAL_VEHICLE_WIDTH = 18 / 10"
definition PIXELS_PER_METER :: real where "PIXELS_PER_METER = 50"

subsection \<open>Data\<close>

text \<open>A bounding box is the tuple \<^verbatim>\<open>(x, y, w, h)\<close>; a view tag is a string.\<close>

type_synonym bbox = "real \<times> real \<times> real \<times> real"
type_synonym point = "real \<times> real"

datatype severity = SevNone | Low | Medium | High | Critical

text \<open>The table \<^verbatim>\<open>severity_levels\<close> of \<^verbatim>\<open>check_alerts\<close>.\<close>

fun severity_levels :: "severity \<Rightarrow> nat" where
  "severity_levels SevNone = 0"
| "severity_levels Low = 1"
| "severity_levels Medium = 2"
| "severity_levels High = 3"
| "severity_levels Critical = 4"

text \<open>
  A time to collision: a float, or \<^verbatim>\<open>float('inf')\<close>.
\<close>

datatype ttc = Finite real | Infinite

text \<open>The exceptions that the modelled code can raise.\<close>

datatype error = IndexError | KeyError | LinAlgError

text \<open>
  \<^verbatim>\<open>CollisionDetector.__init__\<close> stores the frame size; \<^verbatim>\<open>frame_center\<close> is
  computed from it once.
\<close>

record collision_detector =
  frame_width :: real
  frame_height :: real

definition frame_center :: "collision_detector \<Rightarrow> point" where
  "frame_center cd = (frame_width cd / 2, frame_height cd / 2)"

text \<open>
  The dictionary that \<^verbatim>\<open>get_tracked_vehicles\<close> builds for one track: all six keys are
  always present.
\<close>

record tracked_vehicle =
  tv_id :: nat
  tv_position :: point
  tv_velocity :: point
  tv_speed :: real
  tv_trajectory :: "point list"
  tv_bbox :: bbox

text \<open>
  The vehicle-info dictionary. \<^verbatim>\<open>position\<close>, \<^verbatim>\<open>velocity\<close> and \<^verbatim>\<open>speed\<close> are
  read by subscript in \<^verbatim>\<open>predict_collision\<close>, so they are fields; every other key is
  read with \<^verbatim>\<open>.get(key, default)\<close> somewhere, so it is a field that may be absent.
\<close>

record vehicle_info =
  position :: point
  velocity :: point
  speed :: real
  distance :: "real option"
  angle :: "real option"
  vid :: "nat option"
  collision_detected :: "bool option"
  time_to_collision :: "ttc option"
  severity :: "severity option"
  view :: "string option"

subsection \<open>collision_detector.py\<close>

text \<open>\<^verbatim>\<open>calculate_distance\<close>, lines 18 to 47. The view is not used.\<close>

definition calculate_distance :: "bbox \<Rightarrow> string \<Rightarrow> real" where
  "calculate_distance bb vw =
     (case bb of (x, y, w, h) \<Rightarrow>
        let pixel_height = h in
        if pixel_height > 0 then
          (let distance_pixels = (REAL_VEHICLE_WIDTH * FOCAL_LENGTH) / pixel_height;
               distance_meters = distance_pixels / PIXELS_PER_METER
           in max 1 (min distance_meters 200))
        else 100)"

text \<open>
  \<^verbatim>\<open>math.atan2\<close> and \<^verbatim>\<open>math.degrees\<close> of the Python library, and the float
  operator \<^verbatim>\<open>%\<close>, whose result has the sign of the divisor.
\<close>

definition atan2 :: "real \<Rightarrow> real \<Rightarrow> real" where
  "atan2 y x =
     (if 0 < x then arctan (y / x)
      else if x < 0 then (if 0 \<le> y then arctan (y / x) + pi else arctan (y / x) - pi)
      else if 0 < y then pi / 2
      else if y < 0 then - (pi / 2)
      else 0)"

definition degrees :: "real \<Rightarrow> real" where
  "degrees r = r * 180 / pi"

definition fmod_py :: "real \<Rightarrow> real \<Rightarrow> real" where
  "fmod_py a m = a - m * of_int \<lfloor>a / m\<rfloor>"

text \<open>
  Lines 60 to 74 of \<^verbatim>\<open>calculate_angle\<close>: the bearing of the box center seen from the
  frame center, in degrees, with 360 added when it is negative.
\<close>

definition raw_bearing :: "collision_detector \<Rightarrow> bbox \<Rightarrow> real" where
  "raw_bearing cd bb =
     (case bb of (x, y, w, h) \<Rightarrow>
        let cx = x + w / 2;
            cy = y + h / 2;
            dx = cx - fst (frame_center cd);
            dy = cy - snd (frame_center cd);
            angle_rad = atan2 dy dx;
            angle_deg = degrees angle_rad
        in if angle_deg < 0 then angle_deg + 360 else angle_deg)"

text \<open>\<^verbatim>\<open>calculate_angle\<close>, lines 49 to 90: the chain over the view has no final else.\<close>

definition calculate_angle :: "collision_detector \<Rightarrow> bbox \<Rightarrow> string \<Rightarrow> real" where
  "calculate_angle cd bb vw =
     (let angle_deg = raw_bearing cd bb in
      if vw = ''front'' then angle_deg
      else if vw = ''back'' then fmod_py (angle_deg + 180) 360
      else if vw = ''left'' then fmod_py (angle_deg + 90) 360
      else if vw = ''right'' then fmod_py (angle_deg - 90) 360
      else angle_deg)"

text \<open>Lines 116 to 125 of \<^verbatim>\<open>predict_collision\<close>.\<close>

definition angle_from_center :: "string \<Rightarrow> real \<Rightarrow> real" where
  "angle_from_center vw ang =
     (let a = (if vw \<in> set [''front'', ''back''] then \<bar>ang - 0\<bar> else \<bar>ang - 90\<bar>)
      in if a > 180 then 360 - a else a)"

text \<open>The three risk scores, lines 144 to 177, and their weighted sum, line 181.\<close>

definition distance_score :: "real \<Rightarrow> real" where
  "distance_score d =
     (if d \<le> CRITICAL_DISTANCE then 1
      else if d \<le> HIGH_DISTANCE then 8 / 10
      else if d \<le> MEDIUM_DISTANCE then 6 / 10
      else if d \<le> LOW_DISTANCE then 4 / 10
      else max 0 (1 - (d - LOW_DISTANCE) / 50))"

definition speed_score :: "real \<Rightarrow> real" where
  "speed_score v =
     (if v \<ge> CRITICAL_SPEED then 1
      else if v \<ge> HIGH_SPEED then 8 / 10
      else if v \<ge> MEDIUM_SPEED then 6 / 10
      else if v \<ge> LOW_SPEED then 4 / 10
      else v / LOW_SPEED * (4 / 10))"

definition angle_score :: "real \<Rightarrow> real" where
  "angle_score a =
     (if a \<le> CRITICAL_ANGLE then 1
      else if a \<le> HIGH_ANGLE then 8 / 10
      else if a \<le> MEDIUM_ANGLE then 6 / 10
      else if a \<le> LOW_ANGLE then 4 / 10
      else max 0 (1 - (a - LOW_ANGLE) / 60))"

definition combined_score :: "real \<Rightarrow> real \<Rightarrow> real \<Rightarrow> real" where
  "combined_score d v a =
     distance_score d * (4 / 10) + speed_score v * (35 / 100) + angle_score a * (25 / 100)"

text \<open>
  Lines 184 to 216: the chain of threshold tiers with the combined score as fallback.
  The arguments are the distance, the actual speed and the angle from center; the result
  is the pair \<^verbatim>\<open>(is_collision, severity)\<close> at line 217.
\<close>

definition tier_severity :: "real \<Rightarrow> real \<Rightarrow> real \<Rightarrow> bool \<times> severity" where
  "tier_severity d v a =
     (if d \<le> CRITICAL_DISTANCE \<and> v \<ge> LOW_SPEED \<and> a \<le> CRITICAL_ANGLE then (True, Critical)
      else if d \<le> HIGH_DISTANCE \<and> v \<ge> MEDIUM_SPEED \<and> a \<le> HIGH_ANGLE then (True, High)
      else if d \<le> MEDIUM_DISTANCE \<and> v \<ge> LOW_SPEED \<and> a \<le> MEDIUM_ANGLE then (True, Medium)
      else if d \<le> LOW_DISTANCE \<and> v \<ge> LOW_SPEED \<and> a \<le> LOW_ANGLE then (True, Low)
      else if combined_score d v a \<ge> 7 / 10 then (True, High)
      else if combined_score d v a \<ge> 5 / 10 then (True, Medium)
      else if combined_score d v a \<ge> 3 / 10 then (True, Low)
      else (False, SevNone))"

text \<open>Lines 218 to 224: the first override, for a very close vehicle.\<close>

definition override_close :: "real \<Rightarrow> bool \<times> severity \<Rightarrow> bool \<times> severity" where
  "override_close d cs =
     (case cs of (is_collision, sev) \<Rightarrow>
        if d \<le> CRITICAL_DISTANCE / 2 then
          (True, if sev = SevNone \<or> sev = Low then High
                 else if sev \<noteq> Critical then Critical
                 else sev)
        else (is_collision, sev))"

text \<open>Lines 226 to 230: the second override, for a very fast vehicle on the path.\<close>

definition override_fast :: "real \<Rightarrow> real \<Rightarrow> real \<Rightarrow> bool \<times> severity \<Rightarrow> bool \<times> severity" where
  "override_fast d v a cs =
     (case cs of (is_collision, sev) \<Rightarrow>
        if v \<ge> CRITICAL_SPEED \<and> d \<le> HIGH_DISTANCE \<and> a \<le> HIGH_ANGLE then
          (True, if sev \<noteq> Critical then Critical else sev)
        else (is_collision, sev))"

text \<open>The override block, lines 218 to 230: both overrides, in the order of the source.\<close>

definition apply_overrides :: "real \<Rightarrow> real \<Rightarrow> real \<Rightarrow> bool \<times> severity \<Rightarrow> bool \<times> severity" where
  "apply_overrides d v a cs = override_fast d v a (override_close d cs)"

text \<open>Lines 142 to 231 as a whole.\<close>

definition classify :: "real \<Rightarrow> real \<Rightarrow> real \<Rightarrow> bool \<times> severity" where
  "classify d v a = apply_overrides d v a (tier_severity d v a)"

text \<open>
  \<^verbatim>\<open>predict_collision\<close>, lines 92 to 232. The test \<^verbatim>\<open>speed_ms > 0\<close> at line 139 is
  kept, although \<^verbatim>\<open>actual_speed > SPEED_THRESHOLD\<close> implies it.
\<close>

definition predict_collision ::
  "collision_detector \<Rightarrow> vehicle_info \<Rightarrow> string \<Rightarrow> bool \<times> ttc \<times> severity" where
  "predict_collision cd vehicle vw =
     (let pos = position vehicle;
          vx = fst (velocity vehicle);
          vy = snd (velocity vehicle);
          spd = speed vehicle;
          dist = (case distance vehicle of None \<Rightarrow> 100 | Some d \<Rightarrow> d);
          ang = (case angle vehicle of None \<Rightarrow> 0 | Some a \<Rightarrow> a);
          speed_magnitude = sqrt (vx ^ 2 + vy ^ 2);
          actual_speed = max spd speed_magnitude;
          afc = angle_from_center vw ang;
          dx = fst pos - fst (frame_center cd);
          dy = snd pos - snd (frame_center cd);
          velocity_towards_center = (vx * dx + vy * dy < 0);
          time_to_coll =
            (if actual_speed > SPEED_THRESHOLD \<and> velocity_towards_center then
               (let speed_ms = actual_speed * (1 / 10) in
                if speed_ms > 0 then Finite (dist / speed_ms) else Infinite)
             else Infinite);
          cs = classify dist actual_speed afc
      in (fst cs, time_to_coll, snd cs))"

text \<open>\<^verbatim>\<open>analyze_vehicle\<close>, lines 234 to 264.\<close>

definition analyze_vehicle ::
  "collision_detector \<Rightarrow> bbox \<Rightarrow> tracked_vehicle \<Rightarrow> string \<Rightarrow> vehicle_info" where
  "analyze_vehicle cd bb tv vw =
     (let dist = calculate_distance bb vw;
          ang = calculate_angle cd bb vw;
          vehicle = \<lparr> position = tv_position tv, velocity = tv_velocity tv,
                      speed = tv_speed tv, distance = Some dist, angle = Some ang,
                      vid = Some (tv_id tv), collision_detected = None,
                      time_to_collision = None, severity = None, view = None \<rparr>;
          r = predict_collision cd vehicle vw
      in vehicle \<lparr> collision_detected := Some (fst r),
                   time_to_collision := Some (fst (snd r)),
                   severity := Some (snd (snd r)) \<rparr>)"

subsection \<open>alert_system.py\<close>

text \<open>
  The alert message of \<^verbatim>\<open>check_alerts\<close> is an f-string; it is kept as the values it is
  built from, in order: the vehicle id (absent: the default \<^verbatim>\<open>'?'\<close>), the severity, the
  factors (an empty list is printed as \<^verbatim>\<open>Risk detected\<close>) and the time to collision
  when it is finite. Rendering the numbers with one decimal is left out.
\<close>

datatype factor =
  CLOSE real | Near real | FAST real | Fast real | DIRECT_PATH real | On_Path real

record alert_message =
  msg_vehicle_id :: "nat option"
  msg_severity :: severity
  msg_factors :: "factor list"
  msg_ttc :: "real option"

record alert_system =
  alert_sound_enabled :: bool
  alert_active :: bool
  current_severity :: severity

text \<open>Lines 62 to 80: the factors named in the message of one vehicle.\<close>

definition alert_factors :: "vehicle_info \<Rightarrow> factor list" where
  "alert_factors vehicle =
     (let vw = (case view vehicle of None \<Rightarrow> ''unknown'' | Some w \<Rightarrow> w);
          dist = (case distance vehicle of None \<Rightarrow> 0 | Some d \<Rightarrow> d);
          spd = speed vehicle;
          ang = (case angle vehicle of None \<Rightarrow> 0 | Some a \<Rightarrow> a);
          f1 = (if dist \<le> CRITICAL_DISTANCE then [CLOSE dist]
                else if dist \<le> HIGH_DISTANCE then [Near dist] else []);
          f2 = (if spd \<ge> CRITICAL_SPEED then [FAST spd]
                else if spd \<ge> HIGH_SPEED then [Fast spd] else []);
          afc0 = (if vw \<in> set [''front'', ''back''] then \<bar>ang - 0\<bar> else \<bar>ang - 90\<bar>);
          afc = (if afc0 > 180 then 360 - afc0 else afc0);
          f3 = (if afc \<le> CRITICAL_ANGLE then [DIRECT_PATH ang]
                else if afc \<le> HIGH_ANGLE then [On_Path ang] else [])
      in f1 @ f2 @ f3)"

text \<open>
  The body of the loop of \<^verbatim>\<open>check_alerts\<close>, lines 44 to 89, on the three local
  variables \<^verbatim>\<open>should_alert\<close>, \<^verbatim>\<open>max_severity\<close> and \<^verbatim>\<open>alert_messages\<close>.
\<close>

definition check_vehicle ::
  "vehicle_info \<Rightarrow> bool \<times> severity \<times> alert_message list \<Rightarrow> bool \<times> severity \<times> alert_message list" where
  "check_vehicle vehicle acc =
     (case acc of (should_alert, max_severity, alert_messages) \<Rightarrow>
        if (case collision_detected vehicle of None \<Rightarrow> False | Some b \<Rightarrow> b) then
          (let sev = (case severity vehicle of None \<Rightarrow> Medium | Some s \<Rightarrow> s);
               max_severity' =
                 (if severity_levels sev > severity_levels max_severity then sev
                  else max_severity);
               tc = (case time_to_collision vehicle of None \<Rightarrow> Infinite | Some t \<Rightarrow> t);
               msg = \<lparr> msg_vehicle_id = vid vehicle, msg_severity = sev,
                       msg_factors = alert_factors vehicle,
                       msg_ttc = (case tc of Finite t \<Rightarrow> Some t | Infinite \<Rightarrow> None) \<rparr>
           in (True, max_severity', alert_messages @ [msg]))
        else (should_alert, max_severity, alert_messages))"

text \<open>
  \<^verbatim>\<open>check_alerts\<close>, lines 29 to 94: the loop over the vehicles, then the two fields of
  the alert system are set and the three values returned.
\<close>

definition check_alerts ::
  "alert_system \<Rightarrow> vehicle_info list \<Rightarrow> alert_system \<times> bool \<times> severity \<times> alert_message list" where
  "check_alerts self vehicles_info =
     (let r = fold check_vehicle vehicles_info (False, SevNone, [])
      in (self \<lparr> alert_active := fst r, current_severity := fst (snd r) \<rparr>, r))"

subsection \<open>The Kalman filter used by vehicle_tracker.py\<close>

text \<open>
  \<^verbatim>\<open>vehicle_tracker.py\<close> builds its estimators with the class \<^verbatim>\<open>KalmanFilter\<close> of the
  library filterpy. Its two methods are the equations of the linear Kalman filter, written
  here on lists of rows; the matrices F, H, R and Q are the ones that
  \<^verbatim>\<open>_create_kalman_filter\<close> assigns, lines 29 to 43, and no code changes them later.
\<close>

type_synonym vec = "real list"
type_synonym mat = "real list list"

definition dot_vv :: "vec \<Rightarrow> vec \<Rightarrow> real" where
  "dot_vv u v = sum_list (map2 (*) u v)"

definition mat_vec :: "mat \<Rightarrow> vec \<Rightarrow> vec" where
  "mat_vec A v = map (\<lambda>row. dot_vv row v) A"

definition mat_mul :: "mat \<Rightarrow> mat \<Rightarrow> mat" where
  "mat_mul A B = map (\<lambda>row. map (\<lambda>col. dot_vv row col) (transpose B)) A"

definition vec_add :: "vec \<Rightarrow> vec \<Rightarrow> vec" where
  "vec_add u v = map2 (+) u v"

definition vec_sub :: "vec \<Rightarrow> vec \<Rightarrow> vec" where
  "vec_sub u v = map2 (-) u v"

definition mat_add :: "mat \<Rightarrow> mat \<Rightarrow> mat" where
  "mat_add A B = map2 vec_add A B"

definition mat_sub :: "mat \<Rightarrow> mat \<Rightarrow> mat" where
  "mat_sub A B = map2 vec_sub A B"

text \<open>
  The inverse of the innovation covariance, a two by two matrix;
  \<^verbatim>\<open>numpy.linalg.inv\<close> raises on a singular matrix.
\<close>

fun mat_inv2 :: "mat \<Rightarrow> error + mat" where
  "mat_inv2 [[a, b], [c, d]] =
     (if a * d - b * c = 0 then Inl LinAlgError
      else Inr [[d / (a * d - b * c), - b / (a * d - b * c)],
                [- c / (a * d - b * c), a / (a * d - b * c)]])"
| "mat_inv2 A = Inl LinAlgError"

definition kf_F :: mat where
  "kf_F = [[1, 0, 1, 0], [0, 1, 0, 1], [0, 0, 1, 0], [0, 0, 0, 1]]"

definition kf_H :: mat where
  "kf_H = [[1, 0, 0, 0], [0, 1, 0, 0]]"

definition kf_R :: mat where
  "kf_R = [[5, 0], [0, 5]]"

definition kf_Q :: mat where
  "kf_Q = [[3 / 100, 0, 0, 0], [0, 3 / 100, 0, 0], [0, 0, 3 / 100, 0], [0, 0, 0, 3 / 100]]"

definition eye4 :: mat where
  "eye4 = [[1, 0, 0, 0], [0, 1, 0, 0], [0, 0, 1, 0], [0, 0, 0, 1]]"

text \<open>The state of one filter: the mean \<^verbatim>\<open>x\<close> and the covariance \<^verbatim>\<open>P\<close>.\<close>

record kalman =
  kf_x :: vec
  kf_P :: mat

text \<open>
  \<^verbatim>\<open>_create_kalman_filter\<close>, lines 24 to 45: \<^verbatim>\<open>x\<close> starts at zero and \<^verbatim>\<open>P\<close> is
  the identity times 1000.
\<close>

definition create_kalman_filter :: kalman where
  "create_kalman_filter =
     \<lparr> kf_x = [0, 0, 0, 0],
       kf_P = [[1000, 0, 0, 0], [0, 1000, 0, 0], [0, 0, 1000, 0], [0, 0, 0, 1000]] \<rparr>"

text \<open>\<^verbatim>\<open>KalmanFilter.predict\<close>: x = F x and P = F P F' + Q.\<close>

definition kf_predict :: "kalman \<Rightarrow> kalman" where
  "kf_predict kf =
     \<lparr> kf_x = mat_vec kf_F (kf_x kf),
       kf_P = mat_add (mat_mul (mat_mul kf_F (kf_P kf)) (transpose kf_F)) kf_Q \<rparr>"

text \<open>
  \<^verbatim>\<open>KalmanFilter.update\<close>: y = z - H x, S = H P H' + R, K = P H' inv(S), x = x + K y
  and P = (I - K H) P (I - K H)' + K R K'.
\<close>

definition kf_update :: "kalman \<Rightarrow> vec \<Rightarrow> error + kalman" where
  "kf_update kf z =
     (let y = vec_sub z (mat_vec kf_H (kf_x kf));
          PHT = mat_mul (kf_P kf) (transpose kf_H);
          S = mat_add (mat_mul kf_H PHT) kf_R
      in case mat_inv2 S of
           Inl e \<Rightarrow> Inl e
         | Inr SI \<Rightarrow>
             (let K = mat_mul PHT SI;
                  I_KH = mat_sub eye4 (mat_mul K kf_H)
              in Inr \<lparr> kf_x = vec_add (kf_x kf) (mat_vec K y),
                       kf_P = mat_add (mat_mul (mat_mul I_KH (kf_P kf)) (transpose I_KH))
                                      (mat_mul (mat_mul K kf_R) (transpose K)) \<rparr>))"

subsection \<open>vehicle_tracker.py\<close>

text \<open>
  The fields of \<^verbatim>\<open>VehicleTracker\<close>. A Python dictionary keeps its keys in insertion
  order, and \<^verbatim>\<open>list(self.trackers.keys())[trk_idx]\<close> reads that order, so a dictionary is
  an association list: an assignment to a present key keeps its place, a new key goes to the
  end (\<^const>\<open>AList.update\<close>), and \<^verbatim>\<open>del\<close> removes the entry (\<^const>\<open>AList.delete\<close>).
\<close>

record vehicle_tracker =
  next_id :: nat
  trackers :: "(nat \<times> kalman) list"
  disappeared :: "(nat \<times> nat) list"
  max_disappeared :: nat
  speeds :: "(nat \<times> real list) list"
  positions_history :: "(nat \<times> point list) list"
  timestamps :: "(nat \<times> real list) list"
  bboxes :: "(nat \<times> bbox) list"

text \<open>\<^verbatim>\<open>__init__\<close>, lines 14 to 22.\<close>

definition init_tracker :: "nat \<Rightarrow> vehicle_tracker" where
  "init_tracker md =
     \<lparr> next_id = 0, trackers = [], disappeared = [], max_disappeared = md, speeds = [],
       positions_history = [], timestamps = [], bboxes = [] \<rparr>"

text \<open>Reading a \<^verbatim>\<open>defaultdict(list)\<close>: a missing key reads as the empty list.\<close>

definition dget :: "(nat \<times> 'a list) list \<Rightarrow> nat \<Rightarrow> 'a list" where
  "dget m k = (case map_of m k of None \<Rightarrow> [] | Some v \<Rightarrow> v)"

text \<open>
  \<^verbatim>\<open>_create_tracker\<close>, lines 91 to 108. The parameter \<^verbatim>\<open>frame_center\<close>, which no
  method of the tracker reads, is left out here and below.
\<close>

definition create_tracker :: "vehicle_tracker \<Rightarrow> bbox \<Rightarrow> real \<Rightarrow> vehicle_tracker" where
  "create_tracker self detection current_time =
     (case detection of (x, y, w, h) \<Rightarrow>
        let cx = x + w / 2;
            cy = y + h / 2;
            kf = create_kalman_filter \<lparr> kf_x := [cx, cy, 0, 0] \<rparr>;
            object_id = next_id self
        in self \<lparr> next_id := next_id self + 1,
                  trackers := AList.update object_id kf (trackers self),
                  disappeared := AList.update object_id 0 (disappeared self),
                  positions_history := AList.update object_id [(cx, cy)] (positions_history self),
                  timestamps := AList.update object_id [current_time] (timestamps self),
                  speeds := AList.update object_id [0] (speeds self),
                  bboxes := AList.update object_id detection (bboxes self) \<rparr>)"

text \<open>
  Lines 123 to 137 of \<^verbatim>\<open>_update_tracker\<close>: the speed sample. \<^verbatim>\<open>[-1]\<close> on an empty
  list raises; \<^verbatim>\<open>pop(0)\<close> drops the oldest sample.
\<close>

definition update_speed ::
  "vehicle_tracker \<Rightarrow> nat \<Rightarrow> real \<Rightarrow> real \<Rightarrow> real \<Rightarrow> error + vehicle_tracker" where
  "update_speed self object_id cx cy current_time =
     (let ph = dget (positions_history self) object_id in
      if length ph > 0 then
        (case last ph of (prev_x, prev_y) \<Rightarrow>
           let ts = dget (timestamps self) object_id in
           if ts = [] then Inl IndexError
           else
             (let prev_time = last ts;
                  dt = current_time - prev_time
              in if dt > 0 then
                   (let dx = cx - prev_x;
                        dy = cy - prev_y;
                        spd = sqrt (dx ^ 2 + dy ^ 2) / dt;
                        sp = dget (speeds self) object_id @ [spd]
                    in Inr (self \<lparr> speeds :=
                              AList.update object_id (if length sp > 10 then tl sp else sp)
                                (speeds self) \<rparr>))
                 else Inr self))
      else Inr self)"

text \<open>
  \<^verbatim>\<open>_update_tracker\<close>, lines 110 to 148. The filter object is changed in place, which
  is an assignment at its key.
\<close>

definition update_tracker ::
  "vehicle_tracker \<Rightarrow> nat \<Rightarrow> bbox \<Rightarrow> real \<Rightarrow> error + vehicle_tracker" where
  "update_tracker self trk_idx detection current_time =
     (if trk_idx \<ge> length (trackers self) then Inl IndexError
      else
        (let object_id = map fst (trackers self) ! trk_idx in
         case map_of (trackers self) object_id of
           None \<Rightarrow> Inl KeyError
         | Some kf \<Rightarrow>
             (case detection of (x, y, w, h) \<Rightarrow>
                let cx = x + w / 2;
                    cy = y + h / 2
                in case kf_update (kf_predict kf) [cx, cy] of
                     Inl e \<Rightarrow> Inl e
                   | Inr kf' \<Rightarrow>
                       (case update_speed
                               (self \<lparr> trackers := AList.update object_id kf' (trackers self) \<rparr>)
                               object_id cx cy current_time of
                          Inl e \<Rightarrow> Inl e
                        | Inr self' \<Rightarrow>
                            (let ph = dget (positions_history self') object_id @ [(cx, cy)];
                                 ts = dget (timestamps self') object_id @ [current_time];
                                 over = (length ph > 30)
                             in Inr (self'
                                  \<lparr> positions_history :=
                                      AList.update object_id (if over then tl ph else ph)
                                        (positions_history self'),
                                    timestamps :=
                                      AList.update object_id (if over then tl ts else ts)
                                        (timestamps self'),
                                    disappeared := AList.update object_id 0 (disappeared self'),
                                    bboxes := AList.update object_id detection (bboxes self') \<rparr>))))))"

text \<open>The Euclidean distance of line 166.\<close>

definition euclid :: "point \<Rightarrow> point \<Rightarrow> real" where
  "euclid p q = sqrt ((fst p - fst q) ^ 2 + (snd p - snd q) ^ 2)"

definition bbox_center :: "bbox \<Rightarrow> point" where
  "bbox_center bb = (case bb of (x, y, w, h) \<Rightarrow> (x + w / 2, y + h / 2))"

text \<open>
  Lines 156 to 168 of \<^verbatim>\<open>_associate_detections_to_trackers\<close>: for each detection, the
  inner loop calls \<^verbatim>\<open>predict\<close> on every filter and then reads its position. The filters
  are the objects stored in the dictionary, so the result is the dictionary after all the
  calls together with the cost matrix.
\<close>

fun cost_rows :: "(nat \<times> kalman) list \<Rightarrow> bbox list \<Rightarrow> (nat \<times> kalman) list \<times> mat" where
  "cost_rows trks [] = (trks, [])"
| "cost_rows trks (detection # detections) =
     (let trks' = map (\<lambda>(object_id, kf). (object_id, kf_predict kf)) trks;
          row = map (\<lambda>(object_id, kf). euclid (bbox_center detection) (kf_x kf ! 0, kf_x kf ! 1)) trks';
          r = cost_rows trks' detections
      in (fst r, row # snd r))"

text \<open>
  Lines 180 to 189: one scan for the smallest remaining entry. \<^verbatim>\<open>min_cost\<close>,
  \<^verbatim>\<open>min_det\<close> and \<^verbatim>\<open>min_trk\<close> are assigned together, so their start values
  \<^verbatim>\<open>(inf, -1, -1)\<close> are \<^const>\<open>None\<close>.
\<close>

definition scan_step ::
  "mat \<Rightarrow> nat \<Rightarrow> nat \<Rightarrow> (real \<times> nat \<times> nat) option \<Rightarrow> (real \<times> nat \<times> nat) option" where
  "scan_step cost_matrix det_idx trk_idx m =
     (case m of
        None \<Rightarrow> Some (cost_matrix ! det_idx ! trk_idx, det_idx, trk_idx)
      | Some (min_cost, min_det, min_trk) \<Rightarrow>
          if cost_matrix ! det_idx ! trk_idx < min_cost
          then Some (cost_matrix ! det_idx ! trk_idx, det_idx, trk_idx)
          else m)"

definition scan_min :: "mat \<Rightarrow> nat list \<Rightarrow> nat list \<Rightarrow> (real \<times> nat \<times> nat) option" where
  "scan_min cost_matrix unmatched_dets unmatched_trks =
     fold (\<lambda>det_idx m. fold (\<lambda>trk_idx m'. scan_step cost_matrix det_idx trk_idx m')
                          unmatched_trks m)
          unmatched_dets None"

text \<open>The gating distance \<^verbatim>\<open>max_distance\<close> of line 177.\<close>

definition max_distance :: real where
  "max_distance = 100"

text \<open>
  Lines 179 to 196: the greedy loop. It takes the smallest remaining entry while that
  entry is below the gate, and removes its detection and its track from the two lists.
\<close>

function greedy_match ::
  "mat \<Rightarrow> (nat \<times> nat) list \<Rightarrow> nat list \<Rightarrow> nat list \<Rightarrow> (nat \<times> nat) list \<times> nat list \<times> nat list" where
  "greedy_match cost_matrix matched unmatched_dets unmatched_trks =
     (case scan_min cost_matrix unmatched_dets unmatched_trks of
        None \<Rightarrow> (matched, unmatched_dets, unmatched_trks)
      | Some (min_cost, min_det, min_trk) \<Rightarrow>
          if min_cost < max_distance then
            greedy_match cost_matrix (matched @ [(min_det, min_trk)])
              (remove1 min_det unmatched_dets) (remove1 min_trk unmatched_trks)
          else (matched, unmatched_dets, unmatched_trks))"
  by pat_completeness auto
termination
  apply (relation "measure (\<lambda>(cost_matrix, matched, unmatched_dets, unmatched_trks). length unmatched_dets)")
   apply simp
  subgoal premises found for cost_matrix matched unmatched_dets unmatched_trks x2 min_cost y min_det min_trk
  proof -
    have inner: "fold (\<lambda>t m'. scan_step cost_matrix d t m') ts m = Some (c, i, j)
        \<Longrightarrow> m = Some (c, i, j) \<or> i = d" for d ts m c i j
      by (induction ts arbitrary: m)
         (auto simp: scan_step_def split: option.splits if_splits prod.splits)
    have outer: "fold (\<lambda>d m. fold (\<lambda>t m'. scan_step cost_matrix d t m') unmatched_trks m) ds m
          = Some (c, i, j) \<Longrightarrow> m = Some (c, i, j) \<or> i \<in> set ds" for ds m c i j
    proof (induction ds arbitrary: m)
      case Nil
      then show ?case by simp
    next
      case (Cons d ds)
      from Cons.prems Cons.IH [of "fold (\<lambda>t m'. scan_step cost_matrix d t m') unmatched_trks m"]
      have "fold (\<lambda>t m'. scan_step cost_matrix d t m') unmatched_trks m = Some (c, i, j) \<or> i \<in> set ds"
        by simp
      with inner [of d unmatched_trks m c i j] show ?case by auto
    qed
    from found have "scan_min cost_matrix unmatched_dets unmatched_trks = Some (min_cost, min_det, min_trk)"
      by simp
    with outer [of unmatched_dets None min_cost min_det min_trk]
    have "min_det \<in> set unmatched_dets"
      by (simp add: scan_min_def)
    then have "length (remove1 min_det unmatched_dets) < length unmatched_dets"
      using length_pos_if_in_set [of min_det unmatched_dets] by (simp add: length_remove1)
    then show ?thesis by simp
  qed
  done

declare greedy_match.simps [simp del]

text \<open>
  \<^verbatim>\<open>_associate_detections_to_trackers\<close>, lines 150 to 198. The tracker is returned as
  well, since the calls of \<^verbatim>\<open>predict\<close> change its filters.
\<close>

definition associate_detections_to_trackers ::
  "vehicle_tracker \<Rightarrow> bbox list \<Rightarrow>
   vehicle_tracker \<times> (nat \<times> nat) list \<times> nat list \<times> nat list" where
  "associate_detections_to_trackers self detections =
     (if length (trackers self) = 0 then (self, [], [0..<length detections], [])
      else
        (let r = cost_rows (trackers self) detections;
             cost_matrix = snd r;
             self' = self \<lparr> trackers := fst r \<rparr>;
             unmatched_dets = [0..<length detections];
             unmatched_trks = [0..<length (trackers self)]
         in if length cost_matrix > 0 \<and> length (cost_matrix ! 0) > 0
            then (self', greedy_match cost_matrix [] unmatched_dets unmatched_trks)
            else (self', [], unmatched_dets, unmatched_trks)))"

text \<open>\<^verbatim>\<open>_remove_tracker\<close>, lines 200 to 213.\<close>

definition remove_tracker :: "vehicle_tracker \<Rightarrow> nat \<Rightarrow> vehicle_tracker" where
  "remove_tracker self object_id =
     self \<lparr> trackers := AList.delete object_id (trackers self),
            disappeared := AList.delete object_id (disappeared self),
            speeds := AList.delete object_id (speeds self),
            positions_history := AList.delete object_id (positions_history self),
            timestamps := AList.delete object_id (timestamps self),
            bboxes := AList.delete object_id (bboxes self) \<rparr>"

text \<open>
  The three lines that age one track, lines 60 to 62 and again 87 to 89: the counter is
  incremented, and the track removed once the counter exceeds the maximum.
\<close>

definition age_tracker :: "vehicle_tracker \<Rightarrow> nat \<Rightarrow> error + vehicle_tracker" where
  "age_tracker self object_id =
     (case map_of (disappeared self) object_id of
        None \<Rightarrow> Inl KeyError
      | Some n \<Rightarrow>
          (let self' = self \<lparr> disappeared := AList.update object_id (n + 1) (disappeared self) \<rparr>
           in Inr (if n + 1 > max_disappeared self' then remove_tracker self' object_id
                   else self')))"

text \<open>Lines 59 to 62: the loop over a copy of the keys of \<^verbatim>\<open>disappeared\<close>.\<close>

fun age_all :: "nat list \<Rightarrow> vehicle_tracker \<Rightarrow> error + vehicle_tracker" where
  "age_all [] self = Inr self"
| "age_all (object_id # ids) self =
     (case age_tracker self object_id of Inl e \<Rightarrow> Inl e | Inr self' \<Rightarrow> age_all ids self')"

text \<open>
  Lines 85 to 89: the loop over the indices of the unmatched tracks. Each index is looked
  up in the list of keys as it is at that moment.
\<close>

fun age_unmatched :: "nat list \<Rightarrow> vehicle_tracker \<Rightarrow> error + vehicle_tracker" where
  "age_unmatched [] self = Inr self"
| "age_unmatched (trk_idx # idxs) self =
     (if trk_idx \<ge> length (trackers self) then Inl IndexError
      else
        (case age_tracker self (map fst (trackers self) ! trk_idx) of
           Inl e \<Rightarrow> Inl e
         | Inr self' \<Rightarrow> age_unmatched idxs self'))"

text \<open>Lines 77 and 78: the loop over the matched pairs.\<close>

fun update_matched ::
  "(nat \<times> nat) list \<Rightarrow> bbox list \<Rightarrow> real \<Rightarrow> vehicle_tracker \<Rightarrow> error + vehicle_tracker" where
  "update_matched [] detections current_time self = Inr self"
| "update_matched ((det_idx, trk_idx) # ms) detections current_time self =
     (case update_tracker self trk_idx (detections ! det_idx) current_time of
        Inl e \<Rightarrow> Inl e
      | Inr self' \<Rightarrow> update_matched ms detections current_time self')"

text \<open>
  \<^verbatim>\<open>update\<close>, lines 47 to 89. The clock value \<^verbatim>\<open>time.time()\<close> read at line 55 is
  the argument \<^verbatim>\<open>current_time\<close>.
\<close>

definition update :: "vehicle_tracker \<Rightarrow> bbox list \<Rightarrow> real \<Rightarrow> error + vehicle_tracker" where
  "update self detections current_time =
     (if length detections = 0 then age_all (map fst (disappeared self)) self
      else if length (trackers self) = 0 then
        Inr (fold (\<lambda>detection s. create_tracker s detection current_time) detections self)
      else
        (case associate_detections_to_trackers self detections of
           (self1, matched, unmatched_dets, unmatched_trks) \<Rightarrow>
             (case update_matched matched detections current_time self1 of
                Inl e \<Rightarrow> Inl e
              | Inr self2 \<Rightarrow>
                  age_unmatched unmatched_trks
                    (fold (\<lambda>det_idx s. create_tracker s (detections ! det_idx) current_time)
                       unmatched_dets self2))))"

text \<open>\<^verbatim>\<open>int\<close> on a float: rounding towards zero.\<close>

definition py_int :: "real \<Rightarrow> real" where
  "py_int r = (if r \<ge> 0 then of_int \<lfloor>r\<rfloor> else of_int \<lceil>r\<rceil>)"

text \<open>\<^verbatim>\<open>get_tracked_vehicles\<close>, lines 215 to 248: the body of the loop, for one track.\<close>

definition tracked_entry :: "vehicle_tracker \<Rightarrow> nat \<times> kalman \<Rightarrow> tracked_vehicle option" where
  "tracked_entry self entry =
     (case entry of (object_id, kf) \<Rightarrow>
        if (case map_of (disappeared self) object_id of None \<Rightarrow> False | Some n \<Rightarrow> n > 0)
        then None
        else
          (let x = kf_x kf ! 0;
               y = kf_x kf ! 1;
               vx = kf_x kf ! 2;
               vy = kf_x kf ! 3;
               sp = dget (speeds self) object_id;
               avg_speed = (if sp \<noteq> [] then sum_list sp / real (length sp) else 0);
               trajectory = dget (positions_history self) object_id;
               bb = (case map_of (bboxes self) object_id of
                       Some b \<Rightarrow> b
                     | None \<Rightarrow> (py_int (x - 50), py_int (y - 50), 100, 100))
           in Some \<lparr> tv_id = object_id, tv_position = (x, y), tv_velocity = (vx, vy),
                     tv_speed = avg_speed, tv_trajectory = trajectory, tv_bbox = bb \<rparr>))"

definition get_tracked_vehicles :: "vehicle_tracker \<Rightarrow> tracked_vehicle list" where
  "get_tracked_vehicles self = List.map_filter (tracked_entry self) (trackers self)"

text \<open>
  A sequence of calls of \<^verbatim>\<open>update\<close>, one for each frame, as the frame loops of
  \<^verbatim>\<open>run_detection.py\<close> and \<^verbatim>\<open>gui_app.py\<close> make them; an exception ends it.
\<close>

fun run :: "vehicle_tracker \<Rightarrow> (bbox list \<times> real) list \<Rightarrow> error + vehicle_tracker" where
  "run self [] = Inr self"
| "run self ((detections, current_time) # ticks) =
     (case update self detections current_time of
        Inl e \<Rightarrow> Inl e
      | Inr self' \<Rightarrow> run self' ticks)"

subsection \<open>run_detection.py\<close>

text \<open>
  \<^verbatim>\<open>_process_view\<close>, lines 104 to 134, without the detector and the drawing: the tracker
  is updated with the detections of the frame, and every tracked vehicle is analysed with
  its stored box and tagged with the view. The key \<^verbatim>\<open>bbox\<close> is always present.
\<close>

definition process_view ::
  "collision_detector \<Rightarrow> vehicle_tracker \<Rightarrow> bbox list \<Rightarrow> real \<Rightarrow> string \<Rightarrow>
   error + vehicle_tracker \<times> vehicle_info list" where
  "process_view cd tracker detections current_time vw =
     (case update tracker detections current_time of
        Inl e \<Rightarrow> Inl e
      | Inr tracker' \<Rightarrow>
          Inr (tracker',
               map (\<lambda>vehicle_tracker_info.
                      (analyze_vehicle cd (tv_bbox vehicle_tracker_info) vehicle_tracker_info vw)
                        \<lparr> view := Some vw \<rparr>)
                   (get_tracked_vehicles tracker')))"

subsection \<open>Notions of the specification and example inputs\<close>

text \<open>The clamp of the specification: a value forced into the interval from lo to hi.\<close>

definition clamp :: "real \<Rightarrow> real \<Rightarrow> real \<Rightarrow> real" where
  "clamp v lo hi = (if v < lo then lo else if v > hi then hi else v)"

text \<open>
  A vehicle is flagged when its collision flag is set; the severity that
  \<^verbatim>\<open>check_alerts\<close> reads is \<^verbatim>\<open>medium\<close> when the key is absent.
\<close>

definition flagged :: "vehicle_info \<Rightarrow> bool" where
  "flagged vehicle = (collision_detected vehicle = Some True)"

definition reported_severity :: "vehicle_info \<Rightarrow> severity" where
  "reported_severity vehicle = (case severity vehicle of None \<Rightarrow> Medium | Some s \<Rightarrow> s)"

text \<open>
  The three values that \<^verbatim>\<open>predict_collision\<close> derives from its input, lines 106 to 125:
  the distance, the actual speed and the angle from center.
\<close>

definition input_distance :: "vehicle_info \<Rightarrow> real" where
  "input_distance vehicle = (case distance vehicle of None \<Rightarrow> 100 | Some d \<Rightarrow> d)"

definition actual_speed :: "vehicle_info \<Rightarrow> real" where
  "actual_speed vehicle =
     max (speed vehicle) (sqrt (fst (velocity vehicle) ^ 2 + snd (velocity vehicle) ^ 2))"

definition input_angle_from_center :: "string \<Rightarrow> vehicle_info \<Rightarrow> real" where
  "input_angle_from_center vw vehicle =
     angle_from_center vw (case angle vehicle of None \<Rightarrow> 0 | Some a \<Rightarrow> a)"

text \<open>
  The condition of the last tier of the chain, lines 203 and 204. Every tier implies it, so
  the tier chain decides the severity exactly when it holds, and the combined score
  decides otherwise.
\<close>

definition meets_lowest_tier :: "real \<Rightarrow> real \<Rightarrow> real \<Rightarrow> bool" where
  "meets_lowest_tier d v a = (d \<le> LOW_DISTANCE \<and> LOW_SPEED \<le> v \<and> a \<le> LOW_ANGLE)"

text \<open>The example of the specification: a 1280 by 720 frame and one bounding box.\<close>

definition example_detector :: collision_detector where
  "example_detector = \<lparr> frame_width = 1280, frame_height = 720 \<rparr>"

definition example_bbox :: bbox where
  "example_bbox = (500, 300, 80, 160)"

text \<open>What the tracker reports for that box on the first tick of its track.\<close>

definition first_tick_vehicle :: tracked_vehicle where
  "first_tick_vehicle =
     \<lparr> tv_id = 0, tv_position = (540, 380), tv_velocity = (0, 0), tv_speed = 0,
       tv_trajectory = [(540, 380)], tv_bbox = example_bbox \<rparr>"

text \<open>
  An input of \<^verbatim>\<open>predict_collision\<close> with a given distance, tracked speed and angle,
  at rest in the corner of the frame.
\<close>

definition scorer_input :: "real \<Rightarrow> real \<Rightarrow> real \<Rightarrow> vehicle_info" where
  "scorer_input d s a =
     \<lparr> position = (0, 0), velocity = (0, 0), speed = s, distance = Some d, angle = Some a,
       vid = Some 0, collision_detected = None, time_to_collision = None, severity = None,
       view = None \<rparr>"

subsection \<open>Notions used for the tracker\<close>

text \<open>
  What a scan may hold: nothing, or an entry of the cost matrix together with its
  position, taken from the given rows and columns.
\<close>

definition scan_ok :: "mat \<Rightarrow> nat set \<Rightarrow> nat set \<Rightarrow> (real \<times> nat \<times> nat) option \<Rightarrow> bool" where
  "scan_ok cost D T m =
     (case m of None \<Rightarrow> True
      | Some (c, d, t) \<Rightarrow> d \<in> D \<and> t \<in> T \<and> c = cost ! d ! t)"

text \<open>
  The ids of the live tracks, in the order of the dictionary; the invariant of the id
  counter; and what one or more updates may do to the ids.
\<close>

definition live_ids :: "vehicle_tracker \<Rightarrow> nat list" where
  "live_ids self = map fst (trackers self)"

definition ids_inv :: "vehicle_tracker \<Rightarrow> bool" where
  "ids_inv self = (distinct (live_ids self) \<and> (\<forall>k \<in> set (live_ids self). k < next_id self))"

definition ids_step :: "vehicle_tracker \<Rightarrow> vehicle_tracker \<Rightarrow> bool" where
  "ids_step self self' =
     (next_id self \<le> next_id self'
      \<and> set (live_ids self') \<subseteq> set (live_ids self) \<union> {next_id self ..< next_id self'})"

text \<open>
  A run of the default tracker: two boxes far apart in the first frame, then frames
  without detections, which age both tracks. The last state is the one after a frame with
  one new box far from both tracks.
\<close>

definition two_tracks :: vehicle_tracker where
  "two_tracks =
     create_tracker (create_tracker (init_tracker 30) (0, 0, 10, 10) 0) (300, 0, 10, 10) 0"

definition two_tracks_aged :: "nat \<Rightarrow> vehicle_tracker" where
  "two_tracks_aged n = two_tracks \<lparr> disappeared := [(0, n), (1, n)] \<rparr>"

definition after_eviction_tick :: vehicle_tracker where
  "after_eviction_tick =
     \<lparr> next_id = 3,
       trackers = [(1, kf_predict (create_kalman_filter \<lparr> kf_x := [305, 5, 0, 0] \<rparr>)),
                   (2, create_kalman_filter \<lparr> kf_x := [605, 5, 0, 0] \<rparr>)],
       disappeared = [(1, 30), (2, 1)],
       max_disappeared = 30,
       speeds = [(1, [0]), (2, [0])],
       positions_history = [(1, [(305, 5)]), (2, [(605, 5)])],
       timestamps = [(1, [0]), (2, [2])],
       bboxes = [(1, (300, 0, 10, 10)), (2, (600, 0, 10, 10))] \<rparr>"

text \<open>
  Another run of the default tracker: one box, and in the next frame the box moved by
  10 pixels. The filter of the track then has a velocity of about 4 pixels per step.
\<close>

definition filter_after_two_ticks :: kalman where
  "filter_after_two_ticks =
     \<lparr> kf_x = [7502635 / 500509, 5, 2000030 / 500509, 0],
       kf_P = [[2500045 / 500509, 0, 1000015 / 500509, 0],
               [0, 2500045 / 500509, 0, 1000015 / 500509],
               [1000015 / 500509, 0, 2010540609 / 10010180, 0],
               [0, 1000015 / 500509, 0, 2010540609 / 10010180]] \<rparr>"

definition tracker_after_two_ticks :: vehicle_tracker where
  "tracker_after_two_ticks =
     \<lparr> next_id = 1,
       trackers = [(0, filter_after_two_ticks)],
       disappeared = [(0, 0)],
       max_disappeared = 30,
       speeds = [(0, [0, 10])],
       positions_history = [(0, [(5, 5), (15, 5)])],
       timestamps = [(0, [0, 1])],
       bboxes = [(0, (10, 0, 10, 10))] \<rparr>"

section \<open>Properties of the scorer\<close>

lemmas config_defs =
  CRITICAL_DISTANCE_def HIGH_DISTANCE_def MEDIUM_DISTANCE_def LOW_DISTANCE_def
  CRITICAL_SPEED_def HIGH_SPEED_def MEDIUM_SPEED_def LOW_SPEED_def
  CRITICAL_ANGLE_def HIGH_ANGLE_def MEDIUM_ANGLE_def LOW_ANGLE_def
  SPEED_THRESHOLD_def FOCAL_LENGTH_def REAL_VEHICLE_WIDTH_def PIXELS_PER_METER_def

subsection \<open>Distance estimate\<close>

lemma max_min_clamp: "lo \<le> hi \<Longrightarrow> max lo (min v hi) = clamp v lo hi"
  by (simp add: clamp_def max_def min_def)

text \<open>
  Claim C7. For every bounding box and view, \<^verbatim>\<open>calculate_distance\<close> returns
  (REAL_VEHICLE_WIDTH * FOCAL_LENGTH) / h / PIXELS_PER_METER clamped to the interval from
  1.0 to 200.0 when h is positive, and exactly 100.0 when h is zero or negative; for
  h = 160 and the constants 700, 1.8 and 50 the result is 1.0.
\<close>

theorem calculate_distance_spec:
  "calculate_distance (x, y, w, h) vw =
     (if h > 0 then clamp ((REAL_VEHICLE_WIDTH * FOCAL_LENGTH) / h / PIXELS_PER_METER) 1 200
      else 100)
   \<and> FOCAL_LENGTH = 700 \<and> REAL_VEHICLE_WIDTH = 18 / 10 \<and> PIXELS_PER_METER = 50
   \<and> calculate_distance (x, y, w, 160) vw = 1"
proof -
  have general: "calculate_distance (x, y, w, h) vw =
     (if h > 0 then clamp ((REAL_VEHICLE_WIDTH * FOCAL_LENGTH) / h / PIXELS_PER_METER) 1 200
      else 100)"
    by (simp add: calculate_distance_def Let_def max_min_clamp)
  have example: "calculate_distance (x, y, w, 160) vw = 1"
    by (simp add: calculate_distance_def config_defs)
  from general example show ?thesis
    by (simp add: config_defs)
qed

subsection \<open>Bearing angle\<close>

lemma atan2_bounds: "- pi < atan2 y x \<and> atan2 y x \<le> pi"
proof -
  have b: "- (pi / 2) < arctan (y / x)" "arctan (y / x) < pi / 2"
    using arctan_bounded [of "y / x"] by simp_all
  have p: "2 \<le> pi" using pi_ge_two by linarith
  show ?thesis
  proof (cases "0 < x")
    case True
    with b p show ?thesis by (simp add: atan2_def; linarith?)
  next
    case False
    show ?thesis
    proof (cases "x < 0")
      case neg: True
      show ?thesis
      proof (cases "0 \<le> y")
        case True
        with neg have "y / x \<le> 0" by (simp add: divide_nonneg_neg)
        then have "arctan (y / x) \<le> 0" by simp
        with b p neg True show ?thesis by (simp add: atan2_def; linarith?)
      next
        case False
        with neg have "0 < y / x" by (simp add: divide_neg_neg)
        then have "0 < arctan (y / x)" by simp
        with b p neg False show ?thesis by (simp add: atan2_def; linarith?)
      qed
    next
      case nn: False
      with False p show ?thesis by (simp add: atan2_def; linarith?)
    qed
  qed
qed

lemma degrees_bounds: "- pi < r \<Longrightarrow> r \<le> pi \<Longrightarrow> - 180 < degrees r \<and> degrees r \<le> 180"
proof -
  assume a: "- pi < r" "r \<le> pi"
  have p: "0 < pi" by simp
  from a p have "- 180 * pi < r * 180" "r * 180 \<le> 180 * pi" by simp_all
  with p show ?thesis
    by (simp add: degrees_def pos_divide_less_eq pos_less_divide_eq pos_divide_le_eq)
qed

lemma raw_bearing_range: "0 \<le> raw_bearing cd bb \<and> raw_bearing cd bb < 360"
proof -
  obtain x y w h where bb: "bb = (x, y, w, h)" by (cases bb) auto
  define r where "r = atan2 (y + h / 2 - snd (frame_center cd)) (x + w / 2 - fst (frame_center cd))"
  have "- 180 < degrees r \<and> degrees r \<le> 180"
    using atan2_bounds [of "y + h / 2 - snd (frame_center cd)" "x + w / 2 - fst (frame_center cd)"]
    unfolding r_def by (intro degrees_bounds) simp_all
  then show ?thesis
    by (simp add: raw_bearing_def bb Let_def r_def)
qed

text \<open>
  Claim C10. For every bounding box and every view tag outside front, back, left and right,
  \<^verbatim>\<open>calculate_angle\<close> returns what it returns for the view front: the bearing of the box
  center seen from the frame center, computed with atan2, in degrees, with 360 added when
  negative, so that it lies in the interval from 0 (included) to 360 (excluded); no
  remapping is applied. The function is total: it has no failing branch.
\<close>

theorem calculate_angle_unknown_view:
  assumes "vw \<notin> {''front'', ''back'', ''left'', ''right''}"
  shows "calculate_angle cd (x, y, w, h) vw = calculate_angle cd (x, y, w, h) ''front''
     \<and> calculate_angle cd (x, y, w, h) vw =
         (let deg = degrees (atan2 (y + h / 2 - frame_height cd / 2) (x + w / 2 - frame_width cd / 2))
          in if deg < 0 then deg + 360 else deg)
     \<and> 0 \<le> calculate_angle cd (x, y, w, h) vw \<and> calculate_angle cd (x, y, w, h) vw < 360"
proof -
  from assms have eq: "calculate_angle cd (x, y, w, h) vw = raw_bearing cd (x, y, w, h)"
    by (simp add: calculate_angle_def)
  have front: "calculate_angle cd (x, y, w, h) ''front'' = raw_bearing cd (x, y, w, h)"
    by (simp add: calculate_angle_def)
  have raw: "raw_bearing cd (x, y, w, h) =
         (let deg = degrees (atan2 (y + h / 2 - frame_height cd / 2) (x + w / 2 - frame_width cd / 2))
          in if deg < 0 then deg + 360 else deg)"
    by (simp add: raw_bearing_def frame_center_def Let_def)
  from eq front raw raw_bearing_range [of cd "(x, y, w, h)"] show ?thesis
    by simp
qed

text \<open>The theorem at the view tag \<^verbatim>\<open>main\<close>, which \<^verbatim>\<open>gui_app.py\<close> passes.\<close>

theorem calculate_angle_unknown_view_witness:
  "''main'' \<notin> {''front'', ''back'', ''left'', ''right''}
   \<and> calculate_angle example_detector (500, 300, 80, 160) ''main''
       = calculate_angle example_detector (500, 300, 80, 160) ''front''
   \<and> 0 \<le> calculate_angle example_detector (500, 300, 80, 160) ''main''
   \<and> calculate_angle example_detector (500, 300, 80, 160) ''main'' < 360"
  using calculate_angle_unknown_view [of "''main''" example_detector 500 300 80 160]
  by simp


subsection \<open>Severity\<close>

lemmas classify_defs =
  classify_def apply_overrides_def override_close_def override_fast_def tier_severity_def
  combined_score_def distance_score_def speed_score_def angle_score_def

lemma predict_collision_classify:
  "(fst (predict_collision cd vehicle vw), snd (snd (predict_collision cd vehicle vw))) =
     classify (input_distance vehicle) (actual_speed vehicle) (input_angle_from_center vw vehicle)"
  by (simp add: predict_collision_def input_distance_def actual_speed_def
      input_angle_from_center_def Let_def)


lemma predict_collision_scorer_input:
  "0 \<le> s \<Longrightarrow> 0 \<le> a \<Longrightarrow> a \<le> 180 \<Longrightarrow>
   predict_collision cd (scorer_input d s a) ''front'' =
     (fst (classify d s a), Infinite, snd (classify d s a))"
  by (simp add: predict_collision_def scorer_input_def angle_from_center_def Let_def max_def)

lemma tier_in_box:
  "d \<le> LOW_DISTANCE \<Longrightarrow> LOW_SPEED \<le> v \<Longrightarrow> a \<le> LOW_ANGLE \<Longrightarrow>
   tier_severity d v a =
     (True, if d \<le> CRITICAL_DISTANCE \<and> a \<le> CRITICAL_ANGLE then Critical
            else if d \<le> HIGH_DISTANCE \<and> v \<ge> MEDIUM_SPEED \<and> a \<le> HIGH_ANGLE then High
            else if d \<le> MEDIUM_DISTANCE \<and> a \<le> MEDIUM_ANGLE then Medium
            else Low)"
  by (simp add: tier_severity_def)

lemma example_bearing:
  "135 < raw_bearing example_detector example_bbox
   \<and> raw_bearing example_detector example_bbox < 180"
proof -
  define t where "t = arctan (- (1 / 5)) + pi"
  have "arctan (- (1 / 5)) < arctan 0" "arctan (- 1) < arctan (- (1 / 5))"
    unfolding arctan_less_iff by simp_all
  then have a: "- (pi / 4) < arctan (- (1 / 5))" "arctan (- (1 / 5)) < 0"
    by (simp_all add: arctan_minus arctan_one)
  have p: "0 < pi" by simp
  have "135 * pi < t * 180" "t * 180 < 180 * pi"
    using a p unfolding t_def by simp_all
  then have deg: "135 < degrees t" "degrees t < 180"
    using p by (simp_all add: degrees_def pos_less_divide_eq pos_divide_less_eq)
  have at: "atan2 20 (- 100) = t"
    by (simp add: atan2_def t_def)
  have "raw_bearing example_detector example_bbox =
          (if degrees t < 0 then degrees t + 360 else degrees t)"
    by (simp add: raw_bearing_def frame_center_def example_detector_def example_bbox_def Let_def at)
  with deg show ?thesis by simp
qed

lemma classify_close_slow:
  "120 \<le> a \<Longrightarrow> classify 1 0 a = (True, High)"
  by (simp add: classify_def apply_overrides_def override_close_def override_fast_def
      tier_severity_def combined_score_def distance_score_def speed_score_def angle_score_def config_defs)


lemma analyze_first_tick:
  "analyze_vehicle example_detector example_bbox first_tick_vehicle ''front'' =
     \<lparr> position = (540, 380), velocity = (0, 0), speed = 0, distance = Some 1,
       angle = Some (raw_bearing example_detector example_bbox), vid = Some 0,
       collision_detected = Some True, time_to_collision = Some Infinite,
       severity = Some High, view = None \<rparr>"
proof -
  have dist: "calculate_distance example_bbox ''front'' = 1"
    by (simp add: calculate_distance_def example_bbox_def config_defs)
  have ang: "calculate_angle example_detector example_bbox ''front'' =
      raw_bearing example_detector example_bbox"
    by (simp add: calculate_angle_def)
  have afc: "angle_from_center ''front'' (raw_bearing example_detector example_bbox) =
      raw_bearing example_detector example_bbox"
    using example_bearing by (simp add: angle_from_center_def)
  have cls: "classify 1 0 (raw_bearing example_detector example_bbox) = (True, High)"
    using example_bearing by (intro classify_close_slow) simp
  show ?thesis
    by (simp add: analyze_vehicle_def predict_collision_def first_tick_vehicle_def dist ang
        afc cls Let_def config_defs)
qed

lemma first_tick_tracked:
  "update (init_tracker 30) [example_bbox] t = Inr (create_tracker (init_tracker 30) example_bbox t)
   \<and> get_tracked_vehicles (create_tracker (init_tracker 30) example_bbox t) = [first_tick_vehicle]"
  by (simp add: update_def init_tracker_def create_tracker_def example_bbox_def
      get_tracked_vehicles_def tracked_entry_def List.map_filter_def dget_def
      first_tick_vehicle_def create_kalman_filter_def)


text \<open>
  Claim C1, as stated: on the first tick of the track of the example box, with mean speed 0
  and velocity (0, 0), the severity is none. It is not: the severity is high.
\<close>

theorem first_tick_severity_not_none:
  "severity (analyze_vehicle example_detector example_bbox first_tick_vehicle ''front'')
     \<noteq> Some SevNone"
  by (simp add: analyze_first_tick)

text \<open>
  Claim C1, amended. For the example box in a 1280 by 720 frame with view front, on the
  first tick of its track (one update of a new tracker with this box), the tracker reports
  mean speed 0 and velocity (0, 0), the distance is 1.0, and the result has the collision
  flag set and severity high: no tier is met, the combined score 0.4 gives low, and the
  override for a distance of at most half the critical distance raises low to high.
\<close>

theorem first_tick_severity_high:
  "process_view example_detector (init_tracker 30) [example_bbox] t ''front'' =
     Inr (create_tracker (init_tracker 30) example_bbox t,
          [\<lparr> position = (540, 380), velocity = (0, 0), speed = 0, distance = Some 1,
             angle = Some (raw_bearing example_detector example_bbox), vid = Some 0,
             collision_detected = Some True, time_to_collision = Some Infinite,
             severity = Some High, view = Some ''front'' \<rparr>])
   \<and> get_tracked_vehicles (create_tracker (init_tracker 30) example_bbox t) = [first_tick_vehicle]
   \<and> tier_severity 1 0 (raw_bearing example_detector example_bbox) = (True, Low)"
proof -
  have tier: "tier_severity 1 0 (raw_bearing example_detector example_bbox) = (True, Low)"
    using example_bearing
    by (simp add: tier_severity_def combined_score_def distance_score_def speed_score_def
        angle_score_def config_defs)
  have bb: "tv_bbox first_tick_vehicle = example_bbox"
    by (simp add: first_tick_vehicle_def)
  show ?thesis
    using first_tick_tracked [of t] tier
    by (simp add: process_view_def analyze_first_tick bb)
qed



lemma classify_monotone_within_tiers:
  assumes "d2 \<le> LOW_DISTANCE" "LOW_SPEED \<le> v2" "a2 \<le> LOW_ANGLE"
      and "d1 \<le> d2" "v2 \<le> v1" "a1 \<le> a2"
  shows "severity_levels (snd (classify d2 v2 a2)) \<le> severity_levels (snd (classify d1 v1 a1))"
proof -
  from assms have box1: "d1 \<le> LOW_DISTANCE" "LOW_SPEED \<le> v1" "a1 \<le> LOW_ANGLE" by simp_all
  show ?thesis
    using assms
    unfolding classify_def tier_in_box [OF assms(1-3)] tier_in_box [OF box1]
    by (auto simp add: apply_overrides_def override_close_def override_fast_def config_defs)
qed

lemma speed_score_mono: "v2 \<le> v1 \<Longrightarrow> speed_score v2 \<le> speed_score v1"
  by (auto simp: speed_score_def config_defs)

lemma tier_outside:
  "\<not> meets_lowest_tier d v a \<Longrightarrow>
   tier_severity d v a =
     (if combined_score d v a \<ge> 7 / 10 then (True, High)
      else if combined_score d v a \<ge> 5 / 10 then (True, Medium)
      else if combined_score d v a \<ge> 3 / 10 then (True, Low)
      else (False, SevNone))"
  by (auto simp: tier_severity_def meets_lowest_tier_def config_defs)

lemma distance_score_mono:
  "d1 \<le> d2 \<Longrightarrow> d2 \<le> LOW_DISTANCE \<or> LOW_DISTANCE < d1 \<Longrightarrow>
   distance_score d2 \<le> distance_score d1"
  by (auto simp: distance_score_def max_def config_defs)

lemma angle_score_mono:
  "a1 \<le> a2 \<Longrightarrow> a2 \<le> LOW_ANGLE \<or> LOW_ANGLE < a1 \<Longrightarrow>
   angle_score a2 \<le> angle_score a1"
  by (auto simp: angle_score_def max_def config_defs)

lemma fallback_mono:
  "c2 \<le> c1 \<Longrightarrow>
   severity_levels (snd (if c2 \<ge> 7 / 10 then (True, High)
      else if c2 \<ge> 5 / 10 then (True, Medium)
      else if c2 \<ge> 3 / 10 then (True, Low)
      else (False, SevNone)))
   \<le> severity_levels (snd (if (c1::real) \<ge> 7 / 10 then (True, High)
      else if c1 \<ge> 5 / 10 then (True, Medium)
      else if c1 \<ge> 3 / 10 then (True, Low)
      else (False, SevNone)))"
  by simp

lemma override_close_mono:
  "d1 \<le> d2 \<Longrightarrow> severity_levels (snd cs2) \<le> severity_levels (snd cs1) \<Longrightarrow>
   severity_levels (snd (override_close d2 cs2)) \<le> severity_levels (snd (override_close d1 cs1))"
  by (cases cs1; cases cs2; cases "snd cs1"; cases "snd cs2")
     (simp_all add: override_close_def)

lemma override_fast_skip:
  "\<not> (v \<ge> CRITICAL_SPEED \<and> d \<le> HIGH_DISTANCE \<and> a \<le> HIGH_ANGLE) \<Longrightarrow>
   override_fast d v a cs = cs"
  by (cases cs) (auto simp add: override_fast_def)

lemma classify_monotone_fallback:
  assumes "\<not> meets_lowest_tier d1 v1 a1"
      and "d1 \<le> d2" "v2 \<le> v1" "a1 \<le> a2"
      and "d2 \<le> LOW_DISTANCE \<or> LOW_DISTANCE < d1"
      and "a2 \<le> LOW_ANGLE \<or> LOW_ANGLE < a1"
  shows "severity_levels (snd (classify d2 v2 a2)) \<le> severity_levels (snd (classify d1 v1 a1))"
proof -
  from assms(1-4) have out2: "\<not> meets_lowest_tier d2 v2 a2"
    by (auto simp: meets_lowest_tier_def)
  from distance_score_mono [OF assms(2,5)] speed_score_mono [OF assms(3)]
    angle_score_mono [OF assms(4,6)]
  have c: "combined_score d2 v2 a2 \<le> combined_score d1 v1 a1"
    by (simp add: combined_score_def)
  from assms(1) have nofast1: "\<not> (v1 \<ge> CRITICAL_SPEED \<and> d1 \<le> HIGH_DISTANCE \<and> a1 \<le> HIGH_ANGLE)"
    by (auto simp: meets_lowest_tier_def config_defs)
  from out2 have nofast2: "\<not> (v2 \<ge> CRITICAL_SPEED \<and> d2 \<le> HIGH_DISTANCE \<and> a2 \<le> HIGH_ANGLE)"
    by (auto simp: meets_lowest_tier_def config_defs)
  have t: "severity_levels (snd (tier_severity d2 v2 a2)) \<le> severity_levels (snd (tier_severity d1 v1 a1))"
    unfolding tier_outside [OF assms(1)] tier_outside [OF out2]
    by (rule fallback_mono [OF c])
  show ?thesis
    unfolding classify_def apply_overrides_def
      override_fast_skip [OF nofast1] override_fast_skip [OF nofast2]
    by (rule override_close_mono [OF assms(2) t])
qed

text \<open>
  Claim C3, as stated: with the other two values fixed, a smaller distance, a greater speed
  or a smaller angle from center never gives a lower severity rank. Each of the three
  fails: distance 25 gives low where 31 gives high, speed 5 gives low where 4.9 gives
  medium, angle 60 gives low where 61 gives high.
\<close>

theorem severity_not_monotone:
  "severity_levels (snd (snd (predict_collision example_detector (scorer_input 25 25 50) ''front'')))
     < severity_levels (snd (snd (predict_collision example_detector (scorer_input 31 25 50) ''front'')))
   \<and> severity_levels (snd (snd (predict_collision example_detector (scorer_input 4 5 50) ''front'')))
     < severity_levels (snd (snd (predict_collision example_detector (scorer_input 4 (49 / 10) 50) ''front'')))
   \<and> severity_levels (snd (snd (predict_collision example_detector (scorer_input 25 25 60) ''front'')))
     < severity_levels (snd (snd (predict_collision example_detector (scorer_input 25 25 61) ''front'')))"
proof -
  have "classify 25 25 50 = (True, Low)" "classify 31 25 50 = (True, High)"
       "classify 4 5 50 = (True, Low)" "classify 4 (49 / 10) 50 = (True, Medium)"
       "classify 25 25 60 = (True, Low)" "classify 25 25 61 = (True, High)"
    by (simp_all add: classify_defs config_defs)
  then show ?thesis
    by (simp add: predict_collision_scorer_input)
qed

text \<open>
  Claim C3, amended. Take two inputs of \<^verbatim>\<open>predict_collision\<close>, the first with a distance
  that is not greater, an actual speed that is not smaller and an angle from center that
  is not greater than the second. Under the order none, low, medium, high, critical (levels
  0 to 4) the severity of the first is not lower than that of the second, provided the two
  inputs do not lie on different sides of the lowest tier, of LOW_DISTANCE or of LOW_ANGLE:
  either the second input meets the lowest tier (then so does the first, and the tier chain
  decides both), or the first does not meet it (then neither does, and the combined score
  decides both), the two distances are both at most LOW_DISTANCE or both greater, and the
  two angles from center are both at most LOW_ANGLE or both greater.
\<close>

theorem severity_monotone_same_mechanism:
  assumes "input_distance vehicle1 \<le> input_distance vehicle2"
      and "actual_speed vehicle2 \<le> actual_speed vehicle1"
      and "input_angle_from_center vw1 vehicle1 \<le> input_angle_from_center vw2 vehicle2"
      and "meets_lowest_tier (input_distance vehicle2) (actual_speed vehicle2)
             (input_angle_from_center vw2 vehicle2)
           \<or> (\<not> meets_lowest_tier (input_distance vehicle1) (actual_speed vehicle1)
                  (input_angle_from_center vw1 vehicle1)
              \<and> (input_distance vehicle2 \<le> LOW_DISTANCE
                   \<or> LOW_DISTANCE < input_distance vehicle1)
              \<and> (input_angle_from_center vw2 vehicle2 \<le> LOW_ANGLE
                   \<or> LOW_ANGLE < input_angle_from_center vw1 vehicle1))"
  shows "severity_levels (snd (snd (predict_collision cd2 vehicle2 vw2)))
           \<le> severity_levels (snd (snd (predict_collision cd1 vehicle1 vw1)))
       \<and> map severity_levels [SevNone, Low, Medium, High, Critical] = [0, 1, 2, 3, 4]"
proof -
  have s: "snd (snd (predict_collision cd vehicle vw)) =
      snd (classify (input_distance vehicle) (actual_speed vehicle)
             (input_angle_from_center vw vehicle))" for cd vehicle vw
    using predict_collision_classify [of cd vehicle vw] by (simp add: prod_eq_iff)
  from assms(4)
  have "severity_levels (snd (snd (predict_collision cd2 vehicle2 vw2)))
           \<le> severity_levels (snd (snd (predict_collision cd1 vehicle1 vw1)))"
  proof
    assume "meets_lowest_tier (input_distance vehicle2) (actual_speed vehicle2)
             (input_angle_from_center vw2 vehicle2)"
    then have "input_distance vehicle2 \<le> LOW_DISTANCE" "LOW_SPEED \<le> actual_speed vehicle2"
        "input_angle_from_center vw2 vehicle2 \<le> LOW_ANGLE"
      by (simp_all add: meets_lowest_tier_def)
    from classify_monotone_within_tiers [OF this assms(1-3)] show ?thesis
      by (simp add: s)
  next
    assume out: "\<not> meets_lowest_tier (input_distance vehicle1) (actual_speed vehicle1)
                  (input_angle_from_center vw1 vehicle1)
              \<and> (input_distance vehicle2 \<le> LOW_DISTANCE
                   \<or> LOW_DISTANCE < input_distance vehicle1)
              \<and> (input_angle_from_center vw2 vehicle2 \<le> LOW_ANGLE
                   \<or> LOW_ANGLE < input_angle_from_center vw1 vehicle1)"
    then have nt: "\<not> meets_lowest_tier (input_distance vehicle1) (actual_speed vehicle1)
                  (input_angle_from_center vw1 vehicle1)"
      by (rule conjunct1)
    from out have sd: "input_distance vehicle2 \<le> LOW_DISTANCE
                   \<or> LOW_DISTANCE < input_distance vehicle1"
      by blast
    from out have sa: "input_angle_from_center vw2 vehicle2 \<le> LOW_ANGLE
                   \<or> LOW_ANGLE < input_angle_from_center vw1 vehicle1"
      by blast
    from classify_monotone_fallback [OF nt assms(1-3) sd sa] show ?thesis
      unfolding s .
  qed
  then show ?thesis by simp
qed

lemma scorer_input_values:
  "input_distance (scorer_input d s a) = d"
  "0 \<le> s \<Longrightarrow> actual_speed (scorer_input d s a) = s"
  "0 \<le> a \<Longrightarrow> a \<le> 180 \<Longrightarrow> input_angle_from_center ''front'' (scorer_input d s a) = a"
  by (simp_all add: input_distance_def actual_speed_def input_angle_from_center_def
      scorer_input_def angle_from_center_def)

text \<open>
  The theorem at two inputs that meet a tier, where the rank rises from medium to critical,
  and at two inputs that no tier decides, at speed 0 and angle 50, where the distance falls
  from 25 to 4 and the rank rises from none to medium.
\<close>

theorem severity_monotone_same_mechanism_witness:
  "input_distance (scorer_input 4 12 10) \<le> input_distance (scorer_input 20 5 40)
   \<and> actual_speed (scorer_input 20 5 40) \<le> actual_speed (scorer_input 4 12 10)
   \<and> input_angle_from_center ''front'' (scorer_input 4 12 10)
        \<le> input_angle_from_center ''front'' (scorer_input 20 5 40)
   \<and> meets_lowest_tier (input_distance (scorer_input 20 5 40)) (actual_speed (scorer_input 20 5 40))
        (input_angle_from_center ''front'' (scorer_input 20 5 40))
   \<and> severity_levels (snd (snd (predict_collision example_detector (scorer_input 20 5 40) ''front'')))
        \<le> severity_levels (snd (snd (predict_collision example_detector (scorer_input 4 12 10) ''front'')))
   \<and> predict_collision example_detector (scorer_input 20 5 40) ''front'' = (True, Infinite, Medium)
   \<and> predict_collision example_detector (scorer_input 4 12 10) ''front'' = (True, Infinite, Critical)
   \<and> input_distance (scorer_input 4 0 50) \<le> input_distance (scorer_input 25 0 50)
   \<and> actual_speed (scorer_input 25 0 50) \<le> actual_speed (scorer_input 4 0 50)
   \<and> input_angle_from_center ''front'' (scorer_input 4 0 50)
        \<le> input_angle_from_center ''front'' (scorer_input 25 0 50)
   \<and> \<not> meets_lowest_tier (input_distance (scorer_input 4 0 50)) (actual_speed (scorer_input 4 0 50))
        (input_angle_from_center ''front'' (scorer_input 4 0 50))
   \<and> input_distance (scorer_input 25 0 50) \<le> LOW_DISTANCE
   \<and> input_angle_from_center ''front'' (scorer_input 25 0 50) \<le> LOW_ANGLE
   \<and> severity_levels (snd (snd (predict_collision example_detector (scorer_input 25 0 50) ''front'')))
        \<le> severity_levels (snd (snd (predict_collision example_detector (scorer_input 4 0 50) ''front'')))
   \<and> predict_collision example_detector (scorer_input 25 0 50) ''front'' = (False, Infinite, SevNone)
   \<and> predict_collision example_detector (scorer_input 4 0 50) ''front'' = (True, Infinite, Medium)"
proof -
  have c: "classify 20 5 40 = (True, Medium)" "classify 4 12 10 = (True, Critical)"
    "classify 25 0 50 = (False, SevNone)" "classify 4 0 50 = (True, Medium)"
    by (simp_all add: classify_defs config_defs)
  from severity_monotone_same_mechanism
         [of "scorer_input 4 12 10" "scorer_input 20 5 40" "''front''" "''front''"
             example_detector example_detector]
       severity_monotone_same_mechanism
         [of "scorer_input 4 0 50" "scorer_input 25 0 50" "''front''" "''front''"
             example_detector example_detector]
  show ?thesis
    by (simp add: scorer_input_values predict_collision_scorer_input c meets_lowest_tier_def
        config_defs)
qed

text \<open>
  Two pairs that no tier decides: at speed 0 and angle 50 the distance falls from 25 to 4
  and the rank rises from none to medium; at distance 40 and angle 50 the speed rises from
  3 to 30 and the rank from medium to high.
\<close>

lemma severity_monotone_fallback_example:
  "\<not> meets_lowest_tier 4 0 50
   \<and> predict_collision example_detector (scorer_input 4 0 50) ''front'' = (True, Infinite, Medium)
   \<and> predict_collision example_detector (scorer_input 25 0 50) ''front'' = (False, Infinite, SevNone)
   \<and> \<not> meets_lowest_tier 40 30 50
   \<and> predict_collision example_detector (scorer_input 40 3 50) ''front'' = (True, Infinite, Medium)
   \<and> predict_collision example_detector (scorer_input 40 30 50) ''front'' = (True, Infinite, High)"
proof -
  have c: "classify 4 0 50 = (True, Medium)" "classify 25 0 50 = (False, SevNone)"
    "classify 40 3 50 = (True, Medium)" "classify 40 30 50 = (True, High)"
    by (simp_all add: classify_defs config_defs)
  then show ?thesis
    by (simp add: predict_collision_scorer_input meets_lowest_tier_def config_defs)
qed

section \<open>Properties of the alert aggregator\<close>

lemma Max_insert_max:
  "finite S \<Longrightarrow> Max (insert (max a b) S) = Max (insert (a::nat) (insert b S))"
  by (cases "S = {}") (simp_all add: max.assoc)

lemma check_vehicle_flagged:
  "flagged v \<Longrightarrow> check_vehicle v (b, m, ms) =
     (True,
      (if severity_levels (reported_severity v) > severity_levels m then reported_severity v else m),
      ms @ [\<lparr> msg_vehicle_id = vid v, msg_severity = reported_severity v,
               msg_factors = alert_factors v,
               msg_ttc = (case (case time_to_collision v of None \<Rightarrow> Infinite | Some t \<Rightarrow> t) of
                            Finite t \<Rightarrow> Some t | Infinite \<Rightarrow> None) \<rparr>])"
  by (simp add: check_vehicle_def flagged_def reported_severity_def Let_def)

lemma check_vehicle_not_flagged:
  "\<not> flagged v \<Longrightarrow> check_vehicle v acc = acc"
  by (cases acc) (auto simp: check_vehicle_def flagged_def split: option.splits)

lemma flagged_levels_Cons:
  "severity_levels ` reported_severity ` {u \<in> set (v # vs). flagged u} =
     (if flagged v
      then insert (severity_levels (reported_severity v))
             (severity_levels ` reported_severity ` {u \<in> set vs. flagged u})
      else severity_levels ` reported_severity ` {u \<in> set vs. flagged u})"
  by auto

lemma fold_check_vehicle:
  "fst (fold check_vehicle vs (b, m, ms)) = (b \<or> (\<exists>v \<in> set vs. flagged v))
   \<and> severity_levels (fst (snd (fold check_vehicle vs (b, m, ms)))) =
       Max (insert (severity_levels m)
             (severity_levels ` reported_severity ` {v \<in> set vs. flagged v}))
   \<and> length (snd (snd (fold check_vehicle vs (b, m, ms)))) = length ms + length (filter flagged vs)"
proof (induction vs arbitrary: b m ms)
  case Nil
  then show ?case by simp
next
  case (Cons v vs)
  let ?L = "severity_levels ` reported_severity ` {u \<in> set vs. flagged u}"
  have fin: "finite ?L" by simp
  show ?case
  proof (cases "flagged v")
    case True
    let ?m = "if severity_levels (reported_severity v) > severity_levels m then reported_severity v else m"
    let ?msg = "\<lparr> msg_vehicle_id = vid v, msg_severity = reported_severity v,
               msg_factors = alert_factors v,
               msg_ttc = (case (case time_to_collision v of None \<Rightarrow> Infinite | Some t \<Rightarrow> t) of
                            Finite t \<Rightarrow> Some t | Infinite \<Rightarrow> None) \<rparr>"
    have lev: "severity_levels ?m = max (severity_levels m) (severity_levels (reported_severity v))"
      by (simp add: max_def)
    have step: "fold check_vehicle (v # vs) (b, m, ms) = fold check_vehicle vs (True, ?m, ms @ [?msg])"
      using True by (simp add: check_vehicle_flagged)
    have L: "severity_levels ` reported_severity ` {u \<in> set (v # vs). flagged u}
               = insert (severity_levels (reported_severity v)) ?L"
      using True by (simp only: flagged_levels_Cons if_True)
    have mx: "Max (insert (severity_levels ?m) ?L)
               = Max (insert (severity_levels m) (insert (severity_levels (reported_severity v)) ?L))"
      unfolding lev by (rule Max_insert_max [OF fin])
    from Cons.IH [of True ?m "ms @ [?msg]"] True show ?thesis
      unfolding step L mx by simp
  next
    case False
    have step: "fold check_vehicle (v # vs) (b, m, ms) = fold check_vehicle vs (b, m, ms)"
      using False by (simp add: check_vehicle_not_flagged)
    have L: "severity_levels ` reported_severity ` {u \<in> set (v # vs). flagged u} = ?L"
      using False by (simp only: flagged_levels_Cons if_False)
    from Cons.IH [of b m ms] False show ?thesis
      unfolding step L by simp
  qed
qed

lemma severity_levels_inj: "severity_levels a = severity_levels b \<Longrightarrow> a = b"
  by (cases a; cases b) simp_all

text \<open>
  Claim C8. For every list of vehicle-info records, \<^verbatim>\<open>check_alerts\<close> returns a flag that
  is true exactly when some record is flagged, and a severity that is the maximum over the
  flagged records under the order none, low, medium, high, critical: its level is the
  greatest level of a flagged record (the level 0 of none when there are none), the levels
  of the five severities are 0, 1, 2, 3 and 4 in that order, and the severity returned is
  none or the severity of a flagged record. There is one message for each flagged record,
  and for the empty list the result is false, none and no message.
\<close>

theorem check_alerts_spec:
  "fst (snd (check_alerts self vs)) = (\<exists>v \<in> set vs. flagged v)
   \<and> severity_levels (fst (snd (snd (check_alerts self vs)))) =
       Max (insert 0 (severity_levels ` reported_severity ` {v \<in> set vs. flagged v}))
   \<and> map severity_levels [SevNone, Low, Medium, High, Critical] = [0, 1, 2, 3, 4]
   \<and> fst (snd (snd (check_alerts self vs)))
         \<in> insert SevNone (reported_severity ` {v \<in> set vs. flagged v})
   \<and> length (snd (snd (snd (check_alerts self vs)))) = length (filter flagged vs)
   \<and> snd (check_alerts self []) = (False, SevNone, [])"
proof -
  let ?r = "fst (snd (snd (check_alerts self vs)))"
  let ?R = "reported_severity ` {v \<in> set vs. flagged v}"
  from fold_check_vehicle [of vs False SevNone "[]"]
  have base: "fst (snd (check_alerts self vs)) = (\<exists>v \<in> set vs. flagged v)"
    "severity_levels ?r = Max (insert 0 (severity_levels ` ?R))"
    "length (snd (snd (snd (check_alerts self vs)))) = length (filter flagged vs)"
    by (simp_all add: check_alerts_def Let_def)
  have "Max (insert 0 (severity_levels ` ?R)) \<in> insert 0 (severity_levels ` ?R)"
    by (rule Max_in) simp_all
  with base(2) have "severity_levels ?r = 0 \<or> severity_levels ?r \<in> severity_levels ` ?R"
    by simp
  then have mem: "?r \<in> insert SevNone ?R"
  proof
    assume "severity_levels ?r = 0"
    then have "severity_levels ?r = severity_levels SevNone" by simp
    then have "?r = SevNone" by (rule severity_levels_inj)
    then show ?thesis by simp
  next
    assume "severity_levels ?r \<in> severity_levels ` ?R"
    then obtain s where s: "s \<in> ?R" "severity_levels ?r = severity_levels s" by blast
    from severity_levels_inj [OF s(2)] s(1) show ?thesis by simp
  qed
  have empty: "snd (check_alerts self []) = (False, SevNone, [])"
    by (simp add: check_alerts_def)
  from base mem empty show ?thesis by simp
qed

section \<open>Properties of the tracker\<close>

subsection \<open>Association\<close>

lemma scan_step_ok:
  "scan_ok cost D T m \<Longrightarrow> d \<in> D \<Longrightarrow> t \<in> T \<Longrightarrow> scan_ok cost D T (scan_step cost d t m)"
  by (auto simp: scan_ok_def scan_step_def split: option.splits)

lemma scan_inner_ok:
  "scan_ok cost D T m \<Longrightarrow> d \<in> D \<Longrightarrow> set ts \<subseteq> T \<Longrightarrow>
   scan_ok cost D T (fold (\<lambda>t m'. scan_step cost d t m') ts m)"
  by (induction ts arbitrary: m) (simp_all add: scan_step_ok)

lemma scan_outer_ok:
  "scan_ok cost D T m \<Longrightarrow> set ds \<subseteq> D \<Longrightarrow> set ts \<subseteq> T \<Longrightarrow>
   scan_ok cost D T (fold (\<lambda>d m. fold (\<lambda>t m'. scan_step cost d t m') ts m) ds m)"
  by (induction ds arbitrary: m) (simp_all add: scan_inner_ok)

lemma scan_min_Some:
  assumes "scan_min cost uds uts = Some (c, d, t)"
  shows "d \<in> set uds \<and> t \<in> set uts \<and> c = cost ! d ! t"
proof -
  have "scan_ok cost (set uds) (set uts) (scan_min cost uds uts)"
    unfolding scan_min_def by (rule scan_outer_ok) (simp_all add: scan_ok_def)
  with assms show ?thesis by (simp add: scan_ok_def)
qed

lemma greedy_match_gate:
  assumes "greedy_match cost matched uds uts = (m, ud, ut)"
      and "(d, t) \<in> set m"
  shows "(d, t) \<in> set matched \<or> (d \<in> set uds \<and> t \<in> set uts \<and> cost ! d ! t < max_distance)"
  using assms
proof (induction cost matched uds uts rule: greedy_match.induct)
  case (1 cost matched uds uts)
  show ?case
  proof (cases "scan_min cost uds uts")
    case None
    with "1.prems" show ?thesis by (simp add: greedy_match.simps)
  next
    case (Some r)
    obtain c i j where r: "r = (c, i, j)" by (cases r) auto
    from Some r have found: "scan_min cost uds uts = Some (c, i, j)" by simp
    note mem = scan_min_Some [OF found]
    show ?thesis
    proof (cases "c < max_distance")
      case True
      from "1.prems"(1) found True
      have rec: "greedy_match cost (matched @ [(i, j)]) (remove1 i uds) (remove1 j uts) = (m, ud, ut)"
        by (simp add: greedy_match.simps [of cost matched uds uts])
      from "1.IH" [OF Some r [symmetric] refl True rec "1.prems"(2)]
      have "(d, t) \<in> set (matched @ [(i, j)])
            \<or> d \<in> set (remove1 i uds) \<and> t \<in> set (remove1 j uts) \<and> cost ! d ! t < max_distance" .
      with mem True set_remove1_subset [of i uds] set_remove1_subset [of j uts] show ?thesis
        by auto
    next
      case False
      with "1.prems" found show ?thesis
        by (simp add: greedy_match.simps [of cost matched uds uts])
    qed
  qed
qed

lemma cost_rows_fst:
  "fst (cost_rows trks dets) = map (\<lambda>(i, k). (i, (kf_predict ^^ length dets) k)) trks"
proof (induction dets arbitrary: trks)
  case Nil
  then show ?case by simp
next
  case (Cons a dets)
  show ?case
    by (simp add: Let_def Cons.IH funpow_swap1 case_prod_beta comp_def)
qed

lemma cost_rows_length: "length (snd (cost_rows trks dets)) = length dets"
  by (induction dets arbitrary: trks) (simp_all add: Let_def)

lemma cost_rows_row:
  "d < length dets \<Longrightarrow>
   snd (cost_rows trks dets) ! d =
     map (\<lambda>(i, k). euclid (bbox_center (dets ! d))
                      (kf_x ((kf_predict ^^ Suc d) k) ! 0, kf_x ((kf_predict ^^ Suc d) k) ! 1)) trks"
proof (induction dets arbitrary: trks d)
  case Nil
  then show ?case by simp
next
  case (Cons a dets)
  show ?case
  proof (cases d)
    case 0
    then show ?thesis by (simp add: Let_def case_prod_beta comp_def)
  next
    case (Suc n)
    with Cons.prems have "n < length dets" by simp
    from Cons.IH [OF this, of "map (\<lambda>(object_id, kf). (object_id, kf_predict kf)) trks"] Suc
    show ?thesis
      by (simp add: Let_def case_prod_beta comp_def funpow_swap1)
  qed
qed

text \<open>
  Claim C6. For every detection list and tracker state, every pair of a detection and a
  track that the association step matches has a cost-matrix entry strictly below the gate
  of 100 pixels, and that entry is the Euclidean distance between the center of the
  detection and the center which the filter of the track predicts at the moment the entry
  is computed. No match at or above the gate is produced.
\<close>

theorem association_within_gate:
  assumes "associate_detections_to_trackers self detections =
             (self', matched, unmatched_dets, unmatched_trks)"
      and "(det_idx, trk_idx) \<in> set matched"
  shows "det_idx < length detections \<and> trk_idx < length (trackers self)
     \<and> snd (cost_rows (trackers self) detections) ! det_idx ! trk_idx < max_distance
     \<and> max_distance = 100
     \<and> snd (cost_rows (trackers self) detections) ! det_idx ! trk_idx =
         euclid (bbox_center (detections ! det_idx))
           (kf_x ((kf_predict ^^ Suc det_idx) (snd (trackers self ! trk_idx))) ! 0,
            kf_x ((kf_predict ^^ Suc det_idx) (snd (trackers self ! trk_idx))) ! 1)"
proof -
  let ?cost = "snd (cost_rows (trackers self) detections)"
  from assms have ne: "trackers self \<noteq> []"
    by (auto simp: associate_detections_to_trackers_def)
  from assms ne have "greedy_match ?cost [] [0..<length detections] [0..<length (trackers self)]
       = (matched, unmatched_dets, unmatched_trks)"
    by (auto simp: associate_detections_to_trackers_def Let_def split: if_splits)
  from greedy_match_gate [OF this assms(2)]
  have g: "det_idx < length detections" "trk_idx < length (trackers self)"
      "?cost ! det_idx ! trk_idx < max_distance"
    by simp_all
  from cost_rows_row [OF g(1), of "trackers self"] g(2)
  have "?cost ! det_idx ! trk_idx =
         euclid (bbox_center (detections ! det_idx))
           (kf_x ((kf_predict ^^ Suc det_idx) (snd (trackers self ! trk_idx))) ! 0,
            kf_x ((kf_predict ^^ Suc det_idx) (snd (trackers self ! trk_idx))) ! 1)"
    by (simp add: case_prod_beta)
  with g show ?thesis by (simp add: max_distance_def)
qed


subsection \<open>Evaluating the tracker on inputs\<close>

lemma sqrt_100: "sqrt 100 = 10"
  by (rule real_sqrt_unique) simp_all

lemma euclid_same_y: "euclid (a, y) (b, y) = \<bar>a - b\<bar>"
  by (simp add: euclid_def)

lemmas kf_eval =
  kf_predict_def kf_update_def kf_F_def kf_H_def kf_R_def kf_Q_def eye4_def
  mat_vec_def mat_mul_def mat_add_def mat_sub_def vec_add_def vec_sub_def dot_vv_def
  create_kalman_filter_def

lemmas tracker_eval =
  update_def associate_detections_to_trackers_def Let_def bbox_center_def euclid_same_y
  greedy_match.simps scan_min_def scan_step_def max_distance_def update_tracker_def
  update_speed_def dget_def create_tracker_def init_tracker_def age_tracker_def
  remove_tracker_def

text \<open>The theorem for a new track and a box moved by 10 pixels.\<close>

theorem association_within_gate_witness:
  "associate_detections_to_trackers (create_tracker (init_tracker 30) (0, 0, 10, 10) 0)
      [(10, 0, 10, 10)] =
     (fst (associate_detections_to_trackers (create_tracker (init_tracker 30) (0, 0, 10, 10) 0)
             [(10, 0, 10, 10)]),
      [(0, 0)], [], [])
   \<and> (0, 0) \<in> set [(0 :: nat, 0 :: nat)]
   \<and> snd (cost_rows (trackers (create_tracker (init_tracker 30) (0, 0, 10, 10) 0))
             [(10, 0, 10, 10)]) ! 0 ! 0 = 10
   \<and> snd (cost_rows (trackers (create_tracker (init_tracker 30) (0, 0, 10, 10) 0))
             [(10, 0, 10, 10)]) ! 0 ! 0 < max_distance"
proof -
  have a: "snd (associate_detections_to_trackers (create_tracker (init_tracker 30) (0, 0, 10, 10) 0)
      [(10, 0, 10, 10)]) = ([(0, 0)], [], [])"
    by (simp add: tracker_eval kf_eval)
  have c: "snd (cost_rows (trackers (create_tracker (init_tracker 30) (0, 0, 10, 10) 0))
             [(10, 0, 10, 10)]) ! 0 ! 0 = 10"
    by (simp add: tracker_eval kf_eval)
  have h: "associate_detections_to_trackers (create_tracker (init_tracker 30) (0, 0, 10, 10) 0)
      [(10, 0, 10, 10)] =
     (fst (associate_detections_to_trackers (create_tracker (init_tracker 30) (0, 0, 10, 10) 0)
             [(10, 0, 10, 10)]),
      [(0, 0)], [], [])"
    using a by (simp add: prod_eq_iff)
  from association_within_gate [OF h, of 0 0] c h show ?thesis
    by simp
qed


subsection \<open>Prediction steps\<close>

lemma two_ticks:
  "run (init_tracker 30) [([(0, 0, 10, 10)], 0), ([(10, 0, 10, 10)], 1)] =
     Inr tracker_after_two_ticks"
proof -
  have 1: "update (init_tracker 30) [(0, 0, 10, 10)] 0 =
      Inr (create_tracker (init_tracker 30) (0, 0, 10, 10) 0)"
    by (simp add: update_def init_tracker_def)
  have 2: "update (create_tracker (init_tracker 30) (0, 0, 10, 10) 0) [(10, 0, 10, 10)] 1 =
      Inr tracker_after_two_ticks"
    by (simp add: tracker_eval kf_eval sqrt_100 tracker_after_two_ticks_def
        filter_after_two_ticks_def)
  from 1 2 show ?thesis by simp
qed

lemma predict_once:
  "kf_x (kf_predict filter_after_two_ticks) = [9502665 / 500509, 5, 2000030 / 500509, 0]"
  by (simp add: kf_eval filter_after_two_ticks_def)

lemma predict_twice:
  "kf_x (kf_predict (kf_predict filter_after_two_ticks)) =
     [11502695 / 500509, 5, 2000030 / 500509, 0]"
  by (simp add: kf_eval filter_after_two_ticks_def)

lemma two_detections_costs:
  "cost_rows [(0, filter_after_two_ticks)] [(12, 0, 10, 10), (17, 0, 10, 10)] =
     ([(0, kf_predict (kf_predict filter_after_two_ticks))],
      [[994012 / 500509], [491497 / 500509]])"
  by (simp add: Let_def predict_once predict_twice bbox_center_def euclid_same_y)

text \<open>
  Claim C4 says that on an update with detections every live filter advances exactly one
  prediction step, so that all detections are compared with the same predicted center.
  The code calls \<^verbatim>\<open>predict\<close> once for each detection and each track while it fills the
  cost matrix, and once more for a matched track. At the input below (a box at 0, at 10 in
  the next frame, then two boxes at 12 and 17) the filter advances two steps during the
  association; the first box is compared with the center after one step, the second with
  the center after two steps, and the second box wins the match, which it would lose with
  both compared after one step. In the second frame, with one detection, the matched filter
  had already advanced two steps before its correction.
\<close>

theorem association_predicts_per_detection:
  "run (init_tracker 30) [([(0, 0, 10, 10)], 0), ([(10, 0, 10, 10)], 1)] =
     Inr tracker_after_two_ticks
   \<and> trackers tracker_after_two_ticks = [(0, filter_after_two_ticks)]
   \<and> kf_update (kf_predict (kf_predict (create_kalman_filter \<lparr> kf_x := [5, 5, 0, 0] \<rparr>))) [15, 5] =
        Inr filter_after_two_ticks
   \<and> kf_x (kf_predict filter_after_two_ticks) = [9502665 / 500509, 5, 2000030 / 500509, 0]
   \<and> kf_x (kf_predict (kf_predict filter_after_two_ticks)) =
        [11502695 / 500509, 5, 2000030 / 500509, 0]
   \<and> associate_detections_to_trackers tracker_after_two_ticks [(12, 0, 10, 10), (17, 0, 10, 10)] =
        (tracker_after_two_ticks
           \<lparr> trackers := [(0, kf_predict (kf_predict filter_after_two_ticks))] \<rparr>,
         [(1, 0)], [0], [])
   \<and> snd (cost_rows (trackers tracker_after_two_ticks) [(12, 0, 10, 10), (17, 0, 10, 10)]) =
        [[994012 / 500509], [491497 / 500509]]
   \<and> euclid (bbox_center (12, 0, 10, 10)) (9502665 / 500509, 5) = 994012 / 500509
   \<and> euclid (bbox_center (17, 0, 10, 10)) (9502665 / 500509, 5) = 1508533 / 500509
   \<and> euclid (bbox_center (17, 0, 10, 10)) (11502695 / 500509, 5) = 491497 / 500509"
proof -
  have trk: "trackers tracker_after_two_ticks = [(0, filter_after_two_ticks)]"
    by (simp add: tracker_after_two_ticks_def)
  have assoc: "associate_detections_to_trackers tracker_after_two_ticks
        [(12, 0, 10, 10), (17, 0, 10, 10)] =
        (tracker_after_two_ticks
           \<lparr> trackers := [(0, kf_predict (kf_predict filter_after_two_ticks))] \<rparr>,
         [(1, 0)], [0], [])"
    unfolding associate_detections_to_trackers_def trk two_detections_costs
    by (simp add: greedy_match.simps scan_min_def scan_step_def max_distance_def)
  have e: "euclid (bbox_center (12, 0, 10, 10)) (9502665 / 500509, 5) = 994012 / 500509"
      "euclid (bbox_center (17, 0, 10, 10)) (9502665 / 500509, 5) = 1508533 / 500509"
      "euclid (bbox_center (17, 0, 10, 10)) (11502695 / 500509, 5) = 491497 / 500509"
    by (simp_all add: bbox_center_def euclid_same_y)
  have upd: "kf_update (kf_predict (kf_predict (create_kalman_filter \<lparr> kf_x := [5, 5, 0, 0] \<rparr>)))
        [15, 5] = Inr filter_after_two_ticks"
    by (simp add: kf_eval filter_after_two_ticks_def)
  from two_ticks trk upd predict_once predict_twice assoc two_detections_costs e show ?thesis
    by simp
qed


subsection \<open>Disappearance counters\<close>

lemma two_tracks_explicit:
  "two_tracks_aged n =
     \<lparr> next_id = 2,
       trackers = [(0, create_kalman_filter \<lparr> kf_x := [5, 5, 0, 0] \<rparr>),
                   (1, create_kalman_filter \<lparr> kf_x := [305, 5, 0, 0] \<rparr>)],
       disappeared = [(0, n), (1, n)],
       max_disappeared = 30,
       speeds = [(0, [0]), (1, [0])],
       positions_history = [(0, [(5, 5)]), (1, [(305, 5)])],
       timestamps = [(0, [0]), (1, [0])],
       bboxes = [(0, (0, 0, 10, 10)), (1, (300, 0, 10, 10))] \<rparr>"
  by (simp add: two_tracks_aged_def two_tracks_def create_tracker_def init_tracker_def)

lemma first_tick_two_tracks:
  "update (init_tracker 30) [(0, 0, 10, 10), (300, 0, 10, 10)] 0 = Inr (two_tracks_aged 0)"
  by (simp add: two_tracks_explicit) (simp add: update_def create_tracker_def init_tracker_def)

lemma empty_tick:
  "n < 30 \<Longrightarrow> update (two_tracks_aged n) [] t = Inr (two_tracks_aged (Suc n))"
  by (simp add: two_tracks_explicit) (simp add: update_def age_tracker_def)

lemma empty_ticks:
  "n + k \<le> 30 \<Longrightarrow> run (two_tracks_aged n) (replicate k ([], t)) = Inr (two_tracks_aged (n + k))"
proof (induction k arbitrary: n)
  case 0
  then show ?case by simp
next
  case (Suc k)
  then have "n < 30" "Suc n + k \<le> 30" by simp_all
  with Suc.IH [of "Suc n"] show ?case
    by (simp add: empty_tick)
qed

lemma eviction_tick:
  "update (two_tracks_aged 30) [(600, 0, 10, 10)] 2 = Inr after_eviction_tick"
  by (simp add: two_tracks_explicit after_eviction_tick_def)
     (simp add: update_def associate_detections_to_trackers_def Let_def bbox_center_def
        euclid_same_y greedy_match.simps scan_min_def scan_step_def max_distance_def
        create_tracker_def age_tracker_def remove_tracker_def kf_eval)

text \<open>
  Claim C5 says that on every update a matched or new track has its counter at 0, a
  missed track has it incremented by exactly 1, and a track is removed exactly when its
  counter exceeds the maximum. The loop over the unmatched tracks reads each index in the
  list of keys as it is after the removals before it. At the input below (two boxes, 30
  frames without detections, one new box far away) both tracks, ids 0 and 1, are missed
  with counters at 30: track 0 is removed, then index 1 names the new track 2, whose
  counter becomes 1, while track 1 keeps its counter 30 and stays.
\<close>

theorem eviction_shifts_indices:
  "run (init_tracker 30)
       (([(0, 0, 10, 10), (300, 0, 10, 10)], 0) # replicate 30 ([], 1)) = Inr (two_tracks_aged 30)
   \<and> map fst (trackers (two_tracks_aged 30)) = [0, 1]
   \<and> disappeared (two_tracks_aged 30) = [(0, 30), (1, 30)]
   \<and> max_disappeared (two_tracks_aged 30) = 30
   \<and> update (two_tracks_aged 30) [(600, 0, 10, 10)] 2 = Inr after_eviction_tick
   \<and> map fst (trackers after_eviction_tick) = [1, 2]
   \<and> disappeared after_eviction_tick = [(1, 30), (2, 1)]
   \<and> get_tracked_vehicles after_eviction_tick = []"
proof -
  have "run (two_tracks_aged 0) (replicate 30 ([], 1)) = Inr (two_tracks_aged (0 + 30))"
    by (rule empty_ticks) simp
  then have r: "run (init_tracker 30)
       (([(0, 0, 10, 10), (300, 0, 10, 10)], 0) # replicate 30 ([], 1)) = Inr (two_tracks_aged 30)"
    by (simp add: first_tick_two_tracks)
  have g: "get_tracked_vehicles after_eviction_tick = []"
    by (simp add: get_tracked_vehicles_def tracked_entry_def List.map_filter_def
        after_eviction_tick_def)
  from r g eviction_tick show ?thesis
    by (simp add: two_tracks_explicit) (simp add: after_eviction_tick_def)
qed


subsection \<open>Track ids\<close>

lemma ids_step_refl: "ids_step s s"
  by (simp add: ids_step_def)

lemma ids_step_trans: "ids_step s s' \<Longrightarrow> ids_step s' s'' \<Longrightarrow> ids_step s s''"
  by (fastforce simp: ids_step_def)

lemma create_tracker_ids:
  assumes "ids_inv s"
  shows "ids_inv (create_tracker s d t) \<and> ids_step s (create_tracker s d t)"
proof -
  obtain x y w h where d: "d = (x, y, w, h)" by (cases d) auto
  from assms have fresh: "next_id s \<notin> set (map fst (trackers s))"
    by (auto simp: ids_inv_def live_ids_def)
  have ids: "live_ids (create_tracker s d t) = live_ids s @ [next_id s]"
    using fresh by (simp add: create_tracker_def d live_ids_def Let_def AList.update_keys)
  have nid: "next_id (create_tracker s d t) = next_id s + 1"
    by (simp add: create_tracker_def d Let_def)
  from assms fresh show ?thesis
    unfolding ids_inv_def ids_step_def ids nid
    by (auto simp: live_ids_def)
qed

lemma fold_create_ids:
  "ids_inv s \<Longrightarrow> ids_inv (fold (\<lambda>x s. create_tracker s (f x) t) xs s)
     \<and> ids_step s (fold (\<lambda>x s. create_tracker s (f x) t) xs s)"
proof (induction xs arbitrary: s)
  case Nil
  then show ?case by (simp add: ids_step_refl)
next
  case (Cons x xs)
  from create_tracker_ids [OF Cons.prems, of "f x" t]
  have a: "ids_inv (create_tracker s (f x) t)" "ids_step s (create_tracker s (f x) t)"
    by simp_all
  from Cons.IH [OF a(1)] a(2) show ?case
    by (auto intro: ids_step_trans)
qed

lemma update_speed_ids:
  "update_speed s k cx cy t = Inr s' \<Longrightarrow> trackers s' = trackers s \<and> next_id s' = next_id s"
  by (auto simp: update_speed_def Let_def split: if_splits prod.splits)

lemma update_tracker_ids:
  assumes "update_tracker s i d t = Inr s'"
  shows "live_ids s' = live_ids s \<and> next_id s' = next_id s"
proof -
  obtain x y w h where d: "d = (x, y, w, h)" by (cases d) auto
  from assms have i: "i < length (trackers s)"
    by (auto simp: update_tracker_def split: if_splits)
  let ?k = "map fst (trackers s) ! i"
  from i have mem: "?k \<in> set (map fst (trackers s))"
    by (metis length_map nth_mem)
  from assms i obtain kf kf' s1 where
    upd: "update_speed (s \<lparr> trackers := AList.update ?k kf' (trackers s) \<rparr>) ?k (x + w / 2) (y + h / 2) t = Inr s1"
    and s': "trackers s' = trackers s1" "next_id s' = next_id s1"
    by (auto simp: update_tracker_def d Let_def split: if_splits option.splits sum.splits)
  from update_speed_ids [OF upd] s' mem show ?thesis
    by (simp add: live_ids_def AList.update_keys)
qed

lemma update_matched_ids:
  "update_matched ms dets t s = Inr s' \<Longrightarrow> live_ids s' = live_ids s \<and> next_id s' = next_id s"
proof (induction ms arbitrary: s)
  case Nil
  then show ?case by simp
next
  case (Cons m ms)
  obtain di ti where m: "m = (di, ti)" by (cases m) auto
  from Cons.prems m obtain s1 where
    a: "update_tracker s ti (dets ! di) t = Inr s1" and b: "update_matched ms dets t s1 = Inr s'"
    by (auto split: sum.splits)
  from update_tracker_ids [OF a] Cons.IH [OF b] show ?case by simp
qed

lemma associate_ids:
  "associate_detections_to_trackers s dets = (s', r) \<Longrightarrow>
   live_ids s' = live_ids s \<and> next_id s' = next_id s"
  by (auto simp: associate_detections_to_trackers_def Let_def live_ids_def cost_rows_fst
      case_prod_beta comp_def split: if_splits)

lemma remove_tracker_ids:
  "live_ids (remove_tracker s k) = removeAll k (live_ids s)
   \<and> next_id (remove_tracker s k) = next_id s"
  by (simp add: remove_tracker_def live_ids_def AList.delete_keys)

lemma age_tracker_ids:
  assumes "age_tracker s k = Inr s'"
  shows "next_id s' = next_id s \<and> set (live_ids s') \<subseteq> set (live_ids s)
     \<and> (distinct (live_ids s) \<longrightarrow> distinct (live_ids s'))"
proof -
  from assms obtain n where n: "map_of (disappeared s) k = Some n"
    by (auto simp: age_tracker_def split: option.splits)
  let ?s1 = "s \<lparr> disappeared := AList.update k (n + 1) (disappeared s) \<rparr>"
  have s1: "live_ids ?s1 = live_ids s" "next_id ?s1 = next_id s"
    by (simp_all add: live_ids_def)
  from assms n have "s' = ?s1 \<or> s' = remove_tracker ?s1 k"
    by (auto simp: age_tracker_def Let_def split: if_splits)
  then show ?thesis
  proof
    assume "s' = ?s1"
    with s1 show ?thesis by simp
  next
    assume "s' = remove_tracker ?s1 k"
    with s1 remove_tracker_ids [of ?s1 k] show ?thesis
      by (auto simp: distinct_removeAll)
  qed
qed

lemma age_all_ids:
  "age_all ks s = Inr s' \<Longrightarrow>
   next_id s' = next_id s \<and> set (live_ids s') \<subseteq> set (live_ids s)
     \<and> (distinct (live_ids s) \<longrightarrow> distinct (live_ids s'))"
proof (induction ks arbitrary: s)
  case Nil
  then show ?case by simp
next
  case (Cons k ks)
  from Cons.prems obtain s1 where a: "age_tracker s k = Inr s1" and b: "age_all ks s1 = Inr s'"
    by (auto split: sum.splits)
  from age_tracker_ids [OF a] Cons.IH [OF b] show ?case by auto
qed

lemma age_unmatched_ids:
  "age_unmatched is s = Inr s' \<Longrightarrow>
   next_id s' = next_id s \<and> set (live_ids s') \<subseteq> set (live_ids s)
     \<and> (distinct (live_ids s) \<longrightarrow> distinct (live_ids s'))"
proof (induction "is" arbitrary: s)
  case Nil
  then show ?case by simp
next
  case (Cons i "is")
  from Cons.prems obtain s1 where
    a: "age_tracker s (map fst (trackers s) ! i) = Inr s1" and b: "age_unmatched is s1 = Inr s'"
    by (auto split: sum.splits if_splits)
  from age_tracker_ids [OF a] Cons.IH [OF b] show ?case by auto
qed

lemma shrink_ids:
  assumes "next_id s' = next_id s" "set (live_ids s') \<subseteq> set (live_ids s)"
    "distinct (live_ids s) \<longrightarrow> distinct (live_ids s')" "ids_inv s"
  shows "ids_inv s' \<and> ids_step s s'"
  using assms by (auto simp: ids_inv_def ids_step_def)

lemma same_ids:
  assumes "live_ids s' = live_ids s" "next_id s' = next_id s" "ids_inv s"
  shows "ids_inv s' \<and> ids_step s s'"
  using assms by (auto simp: ids_inv_def ids_step_def)

lemma update_ids:
  assumes "update s dets t = Inr s'" and "ids_inv s"
  shows "ids_inv s' \<and> ids_step s s'"
proof (cases "length dets = 0")
  case True
  with assms(1) have "age_all (map fst (disappeared s)) s = Inr s'"
    by (simp add: update_def)
  from age_all_ids [OF this] assms(2) show ?thesis
    by (intro shrink_ids) simp_all
next
  case False
  show ?thesis
  proof (cases "length (trackers s) = 0")
    case True
    with False assms(1)
    have "s' = fold (\<lambda>x s. create_tracker s (id x) t) dets s"
      by (simp add: update_def)
    with fold_create_ids [OF assms(2), of id t dets] show ?thesis by simp
  next
    case ne: False
    obtain s1 matched ud ut where
      assoc: "associate_detections_to_trackers s dets = (s1, matched, ud, ut)"
      by (metis prod_cases4)
    from assms(1) False ne assoc obtain s2 where
      m: "update_matched matched dets t s1 = Inr s2"
      and a: "age_unmatched ut (fold (\<lambda>x s. create_tracker s (dets ! x) t) ud s2) = Inr s'"
      by (auto simp: update_def split: sum.splits)
    let ?s3 = "fold (\<lambda>x s. create_tracker s (dets ! x) t) ud s2"
    from associate_ids [OF assoc] assms(2) have 1: "ids_inv s1" "ids_step s s1"
      using same_ids by blast+
    from update_matched_ids [OF m] 1(1) have 2: "ids_inv s2" "ids_step s1 s2"
      using same_ids by blast+
    from fold_create_ids [OF 2(1), of "\<lambda>x. dets ! x" t ud] have 3: "ids_inv ?s3" "ids_step s2 ?s3"
      by simp_all
    from age_unmatched_ids [OF a] 3(1) have 4: "ids_inv s'" "ids_step ?s3 s'"
      using shrink_ids by blast+
    from 1 2 3 4 show ?thesis
      by (blast intro: ids_step_trans)
  qed
qed

lemma run_ids:
  "run s ticks = Inr s' \<Longrightarrow> ids_inv s \<Longrightarrow> ids_inv s' \<and> ids_step s s'"
proof (induction ticks arbitrary: s)
  case Nil
  then show ?case by (simp add: ids_step_refl)
next
  case (Cons tick ticks)
  obtain dets t where tick: "tick = (dets, t)" by (cases tick) auto
  from Cons.prems(1) tick obtain s1 where
    a: "update s dets t = Inr s1" and b: "run s1 ticks = Inr s'"
    by (auto split: sum.splits)
  from update_ids [OF a Cons.prems(2)] have 1: "ids_inv s1" "ids_step s s1" by simp_all
  from Cons.IH [OF b 1(1)] 1(2) show ?case
    by (blast intro: ids_step_trans)
qed

lemma init_ids: "ids_inv (init_tracker md)"
  by (simp add: ids_inv_def live_ids_def init_tracker_def)

text \<open>
  Claim C9. Across any sequence of updates of a new tracker, the ids of the tracks live at
  the same time are pairwise distinct and below the counter \<^verbatim>\<open>next_id\<close>; the counter
  never decreases; an id that appears was taken from the counter, so it is at least the
  value the counter had before; and an id that was live and is no longer live is never
  live again.
\<close>

theorem track_ids_unique_never_reused:
  assumes "run (init_tracker md) ticks0 = Inr s0"
      and "run s0 ticks1 = Inr s1"
      and "run s1 ticks2 = Inr s2"
  shows "distinct (map fst (trackers s1))
     \<and> next_id s0 \<le> next_id s1 \<and> next_id s1 \<le> next_id s2
     \<and> (\<forall>k \<in> set (map fst (trackers s1)). k < next_id s1)
     \<and> (\<forall>k \<in> set (map fst (trackers s1)) - set (map fst (trackers s0)). next_id s0 \<le> k)
     \<and> (\<forall>k \<in> set (map fst (trackers s0)) - set (map fst (trackers s1)).
           k \<notin> set (map fst (trackers s2)))"
proof -
  from run_ids [OF assms(1) init_ids] have 0: "ids_inv s0" by simp
  from run_ids [OF assms(2) 0] have 1: "ids_inv s1" "ids_step s0 s1" by simp_all
  from run_ids [OF assms(3) 1(1)] have 2: "ids_inv s2" "ids_step s1 s2" by simp_all
  from 0 1 2 show ?thesis
    unfolding ids_inv_def ids_step_def live_ids_def
    by (auto 4 3)
qed


text \<open>
  The theorem for a tracker with maximum 0: track 0 is created, removed after one frame
  without detections, and the next track gets the id 1.
\<close>

theorem track_ids_unique_never_reused_witness:
  "run (init_tracker 0) [([(0, 0, 10, 10)], 0)] =
     Inr (create_tracker (init_tracker 0) (0, 0, 10, 10) 0)
   \<and> run (create_tracker (init_tracker 0) (0, 0, 10, 10) 0) [([], 1)] =
       Inr ((init_tracker 0) \<lparr> next_id := 1 \<rparr>)
   \<and> run ((init_tracker 0) \<lparr> next_id := 1 \<rparr>) [([(0, 0, 10, 10)], 2)] =
       Inr (create_tracker ((init_tracker 0) \<lparr> next_id := 1 \<rparr>) (0, 0, 10, 10) 2)
   \<and> map fst (trackers (create_tracker (init_tracker 0) (0, 0, 10, 10) 0)) = [0]
   \<and> map fst (trackers ((init_tracker 0) \<lparr> next_id := 1 \<rparr>)) = []
   \<and> map fst (trackers (create_tracker ((init_tracker 0) \<lparr> next_id := 1 \<rparr>) (0, 0, 10, 10) 2)) = [1]
   \<and> 0 \<notin> set (map fst (trackers (create_tracker ((init_tracker 0) \<lparr> next_id := 1 \<rparr>) (0, 0, 10, 10) 2)))"
proof -
  have 0: "run (init_tracker 0) [([(0, 0, 10, 10)], 0)] =
     Inr (create_tracker (init_tracker 0) (0, 0, 10, 10) 0)"
    by (simp add: update_def init_tracker_def)
  have 1: "run (create_tracker (init_tracker 0) (0, 0, 10, 10) 0) [([], 1)] =
       Inr ((init_tracker 0) \<lparr> next_id := 1 \<rparr>)"
    by (simp add: update_def init_tracker_def create_tracker_def age_tracker_def
        remove_tracker_def)
  have 2: "run ((init_tracker 0) \<lparr> next_id := 1 \<rparr>) [([(0, 0, 10, 10)], 2)] =
       Inr (create_tracker ((init_tracker 0) \<lparr> next_id := 1 \<rparr>) (0, 0, 10, 10) 2)"
    by (simp add: update_def init_tracker_def)
  from track_ids_unique_never_reused [OF 0 1 2] 0 1 2 show ?thesis
    by (simp add: init_tracker_def create_tracker_def)
qed

end
